theory Spec2Isabelle
  imports Complex_Main
begin

section \<open>Data model (types.ts)\<close>

text \<open>
  JavaScript numbers are idealised: amounts, prices and coordinates are \<open>real\<close>,
  counts (quantity, stock) are \<open>int\<close>. An optional field \<open>f?: T\<close> is a \<open>T option\<close>
  (\<open>None\<close> for \<open>undefined\<close>). The \<open>status\<close> of an order is kept as the string it is at
  run time: several functions take \<open>status: string\<close> and compare it with literals.
\<close>

datatype OrderMode = DELIVERY | PICKUP

datatype DeliveryType = INSTANT | SCHEDULED

datatype PaymentStatus = PAID | PENDING

datatype StoreType = general | produce | dairy

record LatLng =
  lat :: real
  lng :: real

record CartItem =
  item_id :: string
  item_name :: string
  price :: real
  quantity :: int
  selectedBrand :: string
  originalProductId :: string
  item_storeId :: string
  item_storeName :: string
  storeType :: StoreType

record PaymentSplit =
  storeAmount :: real
  handlingFee :: "real option"
  deliveryFee :: real

record Order =
  order_id :: string
  date :: string
  items :: "CartItem list"
  total :: real
  status :: string
  paymentStatus :: PaymentStatus
  mode :: OrderMode
  deliveryType :: DeliveryType
  scheduledTime :: "string option"
  deliveryAddress :: "string option"
  storeName :: string
  storeLocation :: "LatLng option"
  userLocation :: "LatLng option"
  splits :: "PaymentSplit option"
  customerName :: "string option"
  customerPhone :: "string option"

section \<open>Customer order view (components/MyOrders.tsx)\<close>

subsection \<open>Demo-mode simulator\<close>

text \<open>
  The component state touched by the simulator: the \<open>orders\<close> state variable and the
  \<open>grocesphere_orders\<close> entry of local storage that every tick overwrites.
\<close>

record MyOrdersState =
  orders :: "Order list"
  grocesphere_orders :: "Order list option"

text \<open>The callback mapped over the orders by one tick of the interval (lines 79-88).\<close>

definition simulatorStep :: "Order \<Rightarrow> Order" where
  "simulatorStep od =
     (if deliveryType od = SCHEDULED \<and> paymentStatus od = PENDING then od
      else if status od = ''Cancelled'' \<or> status od = ''Delivered'' \<or> status od = ''Picked Up''
        then od
      else if status od = ''Pending'' then od\<lparr>status := ''Preparing''\<rparr>
      else if status od = ''Preparing''
        then od\<lparr>status := (if mode od = DELIVERY then ''On the way'' else ''Ready'')\<rparr>
      else if status od = ''On the way'' then od\<lparr>status := ''Delivered''\<rparr>
      else if status od = ''Ready'' then od\<lparr>status := ''Picked Up''\<rparr>
      else od)"

text \<open>
  An order is eligible for the simulator unless it is scheduled and unpaid (the guard at
  line 80).
\<close>

definition eligible :: "Order \<Rightarrow> bool" where
  "eligible od = (\<not> (deliveryType od = SCHEDULED \<and> paymentStatus od = PENDING))"

text \<open>One tick of the 15 second interval: the state updater and the write to local storage.\<close>

definition simulatorTick :: "MyOrdersState \<Rightarrow> MyOrdersState" where
  "simulatorTick st =
     (let updatedOrders = map simulatorStep (orders st)
      in st\<lparr>orders := updatedOrders, grocesphere_orders := Some updatedOrders\<rparr>)"

text \<open>
  The effect installs the interval only for the demo user; for every other \<open>userId\<close>
  the passing of time changes nothing.
\<close>

definition simulator :: "string option \<Rightarrow> nat \<Rightarrow> MyOrdersState \<Rightarrow> MyOrdersState" where
  "simulator userId ticks st =
     (if userId \<noteq> Some ''demo-user'' then st else (simulatorTick ^^ ticks) st)"

subsection \<open>Progress indicator\<close>

text \<open>\<open>Array.prototype.indexOf\<close>: the first position of the element, \<open>-1\<close> when absent.\<close>

fun indexOf :: "'a list \<Rightarrow> 'a \<Rightarrow> int" where
  "indexOf [] x = - 1"
| "indexOf (y # ys) x =
     (if y = x then 0 else (let i = indexOf ys x in if i < 0 then - 1 else i + 1))"

definition deliverySteps :: "string list" where
  "deliverySteps = [''Pending'', ''Preparing'', ''On the way'', ''Delivered'']"

definition pickupSteps :: "string list" where
  "pickupSteps = [''Pending'', ''Preparing'', ''Ready'', ''Picked Up'']"

record StatusInfo =
  steps :: "string list"
  currentIndex :: int
  progress :: real

definition getStatusInfo :: "string \<Rightarrow> OrderMode \<Rightarrow> StatusInfo" where
  "getStatusInfo st m =
     (let steps = (if m = DELIVERY then deliverySteps else pickupSteps);
          currentIndex = indexOf steps st;
          progress = (real_of_int currentIndex / real_of_int (int (length steps) - 1)) * 100
      in \<lparr>steps = steps, currentIndex = currentIndex, progress = progress\<rparr>)"

text \<open>
  The flags \<open>isActive\<close>, \<open>isDone\<close> and \<open>isFuture\<close> the timeline computes for the step at
  position \<open>i\<close> (lines 225-227).
\<close>

definition isActive_at :: "StatusInfo \<Rightarrow> nat \<Rightarrow> bool" where
  "isActive_at info i = (int i = currentIndex info)"

definition isDone_at :: "StatusInfo \<Rightarrow> nat \<Rightarrow> bool" where
  "isDone_at info i = (int i < currentIndex info)"

definition isFuture_at :: "StatusInfo \<Rightarrow> nat \<Rightarrow> bool" where
  "isFuture_at info i = (int i > currentIndex info)"

text \<open>The label the timeline shows for a step (\<open>getLabel\<close>, lines 127-134).\<close>

definition getLabel :: "string \<Rightarrow> string" where
  "getLabel step =
     (if step = ''Pending'' then ''Placed''
      else if step = ''Preparing'' then ''Packing''
      else if step = ''On the way'' then ''On Way''
      else if step = ''Ready'' then ''Ready''
      else if step = ''Picked Up'' then ''Picked Up''
      else step)"

subsection \<open>Live subscription\<close>

text \<open>
  A row of the \<open>orders\<close> table as the data store hands it over, both as the payload of a
  change notification and as an element of a fetched result. The rows are untyped in the
  source (\<open>row: any\<close>); the columns below are the ones the code reads, \<open>row_extra\<close> stands
  for every further column. Null coordinates are not modelled.
\<close>

record OrderRow =
  row_id :: string
  created_at :: string
  row_items :: "CartItem list"
  total_amount :: real
  row_status :: string
  row_type :: "OrderMode option"
  delivery_lat :: real
  delivery_lng :: real
  delivery_address :: "string option"
  customer_id :: "string option"
  row_extra :: "(string \<times> string) list"

text \<open>The status mapping inside the subscription callback (lines 52-58).\<close>

definition appStatus :: "string \<Rightarrow> string" where
  "appStatus dbs =
     (if dbs = ''cancelled'' then ''Cancelled''
      else if dbs = ''picked_up'' then ''Picked Up''
      else if dbs = ''delivered'' then ''Delivered''
      else if dbs = ''on_way'' then ''On the way''
      else if dbs = ''ready'' then ''Ready''
      else if dbs = ''packing'' then ''Preparing''
      else ''Pending'')"

text \<open>The state updater run by the callback of \<open>subscribeToUserOrders\<close> (lines 48-64).\<close>

definition onUserOrderUpdate :: "OrderRow \<Rightarrow> Order list \<Rightarrow> Order list" where
  "onUserOrderUpdate updatedOrderDb prev =
     map (\<lambda>od. if order_id od = row_id updatedOrderDb
                then od\<lparr>status := appStatus (row_status updatedOrderDb)\<rparr>
                else od) prev"

text \<open>The subscription exists only for a signed-in user other than the demo user.\<close>

definition liveUpdate :: "string option \<Rightarrow> OrderRow \<Rightarrow> MyOrdersState \<Rightarrow> MyOrdersState" where
  "liveUpdate userId updatedOrderDb st =
     (case userId of
        None \<Rightarrow> st
      | Some u \<Rightarrow>
          if u = [] \<or> u = ''demo-user'' then st
          else st\<lparr>orders := onUserOrderUpdate updatedOrderDb (orders st)\<rparr>)"

section \<open>Store administration service (services/storeAdminService.ts)\<close>

text \<open>
  What a query of the data store client yields: the awaited call throws, or it resolves to
  a pair of \<open>data\<close> (possibly null) and \<open>error\<close> (possibly null).
\<close>

datatype 'a response = Throws | Response "'a option" "string option"

record ProfileRow =
  profile_id :: string
  full_name :: "string option"
  phone_number :: "string option"

definition mapDbStatusToAppStatus :: "string \<Rightarrow> string" where
  "mapDbStatusToAppStatus dbs =
     (if dbs = ''placed'' then ''Placed''
      else if dbs = ''accepted'' then ''Accepted''
      else if dbs = ''packing'' then ''Preparing''
      else if dbs = ''ready'' then ''Ready''
      else if dbs = ''on_way'' then ''On the way''
      else if dbs = ''delivered'' then ''Delivered''
      else if dbs = ''picked_up'' then ''Picked Up''
      else if dbs = ''cancelled'' then ''Cancelled''
      else if dbs = ''rejected'' then ''Rejected''
      else ''Pending'')"

text \<open>\<open>a || b\<close> on an optional string: the empty string and \<open>undefined\<close> are falsy.\<close>

definition orString :: "string option \<Rightarrow> string \<Rightarrow> string" where
  "orString a b = (case a of None \<Rightarrow> b | Some s \<Rightarrow> if s = [] then b else s)"

text \<open>\<open>[...new Set(xs)]\<close>: the first occurrence of every element, in order.\<close>

fun uniq :: "'a list \<Rightarrow> 'a list" where
  "uniq [] = []"
| "uniq (x # xs) = x # filter (\<lambda>y. y \<noteq> x) (uniq xs)"

definition customerIds :: "OrderRow list \<Rightarrow> string list" where
  "customerIds rows =
     uniq (concat (map (\<lambda>r. case customer_id r of
                               None \<Rightarrow> []
                             | Some c \<Rightarrow> if c = [] then [] else [c]) rows))"

definition profilesMap :: "ProfileRow list \<Rightarrow> (string \<rightharpoonup> ProfileRow)" where
  "profilesMap profiles = fold (\<lambda>p m. m(profile_id p \<mapsto> p)) profiles Map.empty"

definition lookupProfile :: "(string \<rightharpoonup> ProfileRow) \<Rightarrow> string option \<Rightarrow> ProfileRow option" where
  "lookupProfile m cid = (case cid of None \<Rightarrow> None | Some c \<Rightarrow> m c)"

text \<open>The object literal built for every row (lines 242-256).\<close>

definition rowToOrder :: "(string \<rightharpoonup> ProfileRow) \<Rightarrow> OrderRow \<Rightarrow> Order" where
  "rowToOrder m row =
     \<lparr>order_id = row_id row,
      date = created_at row,
      items = row_items row,
      total = total_amount row,
      status = mapDbStatusToAppStatus (row_status row),
      paymentStatus = PAID,
      mode = (case row_type row of None \<Rightarrow> DELIVERY | Some t \<Rightarrow> t),
      deliveryType = INSTANT,
      scheduledTime = None,
      deliveryAddress = delivery_address row,
      storeName = ''My Store'',
      storeLocation = None,
      userLocation = Some \<lparr>lat = delivery_lat row, lng = delivery_lng row\<rparr>,
      splits = None,
      customerName =
        Some (orString (case lookupProfile m (customer_id row) of
                          None \<Rightarrow> None | Some p \<Rightarrow> full_name p) ''Guest''),
      customerPhone =
        Some (orString (case lookupProfile m (customer_id row) of
                          None \<Rightarrow> None | Some p \<Rightarrow> phone_number p) [])\<rparr>"

text \<open>
  \<open>getIncomingOrders\<close>: \<open>ordersQuery\<close> is the outcome of the query on the \<open>orders\<close> table,
  \<open>profilesQuery\<close> the outcome of the query on \<open>profiles\<close> for the given customer ids.
  Every throw inside the \<open>try\<close> block ends in the \<open>catch\<close>, which returns the empty list.
\<close>

definition getIncomingOrders ::
  "OrderRow list response \<Rightarrow> (string list \<Rightarrow> ProfileRow list response) \<Rightarrow> Order list" where
  "getIncomingOrders ordersQuery profilesQuery =
     (case ordersQuery of
        Throws \<Rightarrow> []
      | Response data error \<Rightarrow>
          (case error of
             Some e \<Rightarrow> []
           | None \<Rightarrow>
               (case data of
                  None \<Rightarrow> []
                | Some rows \<Rightarrow>
                    if rows = [] then []
                    else if customerIds rows \<noteq> [] then
                      (case profilesQuery (customerIds rows) of
                         Throws \<Rightarrow> []
                       | Response profiles profError \<Rightarrow>
                           (case (profError, profiles) of
                              (None, Some ps) \<Rightarrow> map (rowToOrder (profilesMap ps)) rows
                            | _ \<Rightarrow> map (rowToOrder Map.empty) rows))
                    else map (rowToOrder Map.empty) rows)))"

text \<open>ASCII lower-casing, standing for \<open>String.prototype.toLowerCase\<close>.\<close>

definition lowerChar :: "char \<Rightarrow> char" where
  "lowerChar c =
     (let n = (of_char c :: nat) in if 65 \<le> n \<and> n \<le> 90 then char_of (n + 32) else c)"

definition toLowerCase :: "string \<Rightarrow> string" where
  "toLowerCase s = map lowerChar s"

text \<open>The local \<open>dbStatus\<close> of \<open>updateStoreOrderStatus\<close>: each later assignment overrides.\<close>

definition dbStatus :: "string \<Rightarrow> string" where
  "dbStatus st =
     (if st = ''Accepted'' then ''accepted''
      else if st = ''Rejected'' then ''rejected''
      else if st = ''On the way'' then ''on_way''
      else if st = ''Picked Up'' then ''picked_up''
      else if st = ''Ready'' then ''ready''
      else if st = ''Preparing'' then ''packing''
      else toLowerCase st)"

text \<open>
  Modelled from the spec: the row update of the data store client (the module
  \<open>supabaseClient\<close> is not among the sources). Following section 4.2, a transition is a
  single write of the new status value keyed by order identity; \<open>writeError\<close> is the error
  the client reports, if any, in which case the function throws it and nothing is written.
\<close>

definition updateStoreOrderStatus ::
  "string \<Rightarrow> string \<Rightarrow> string option \<Rightarrow> OrderRow list \<Rightarrow> string + OrderRow list" where
  "updateStoreOrderStatus orderId st writeError tbl =
     (case writeError of
        Some e \<Rightarrow> Inl e
      | None \<Rightarrow>
          Inr (map (\<lambda>r. if row_id r = orderId then r\<lparr>row_status := dbStatus st\<rparr> else r) tbl))"

subsection \<open>Store profile\<close>

record StoreRow =
  s_id :: string
  s_name :: string
  s_address :: string
  s_rating :: real
  s_lat :: real
  s_lng :: real
  s_is_open :: bool
  s_type :: StoreType
  s_upi_id :: "string option"
  s_owner_id :: "string option"

text \<open>\<open>Partial<Store>\<close>: every field of a store may be present or absent.\<close>

record StoreUpdates =
  u_id :: "string option"
  u_name :: "string option"
  u_address :: "string option"
  u_rating :: "real option"
  u_distance :: "string option"
  u_lat :: "real option"
  u_lng :: "real option"
  u_isOpen :: "bool option"
  u_type :: "StoreType option"
  u_availableProductIds :: "string list option"
  u_upiId :: "string option"
  u_ownerId :: "string option"

text \<open>The object \<open>dbUpdates\<close>: a column is present only when it was assigned.\<close>

record DbUpdates =
  db_name :: "string option"
  db_address :: "string option"
  db_upi_id :: "string option"
  db_lat :: "real option"
  db_lng :: "real option"

text \<open>Truthiness of an optional string and of an optional number.\<close>

definition truthyString :: "string option \<Rightarrow> string option" where
  "truthyString a = (case a of None \<Rightarrow> None | Some s \<Rightarrow> if s = [] then None else Some s)"

definition truthyNumber :: "real option \<Rightarrow> real option" where
  "truthyNumber a = (case a of None \<Rightarrow> None | Some x \<Rightarrow> if x = 0 then None else Some x)"

definition dbUpdates :: "StoreUpdates \<Rightarrow> DbUpdates" where
  "dbUpdates updates =
     \<lparr>db_name = truthyString (u_name updates),
      db_address = truthyString (u_address updates),
      db_upi_id = truthyString (u_upiId updates),
      db_lat = truthyNumber (u_lat updates),
      db_lng = truthyNumber (u_lng updates)\<rparr>"

text \<open>
  Modelled from the spec: the row update of the data store client (the module
  \<open>supabaseClient\<close> is not among the sources). The authoritative store exposes row-level
  update (section 6): the columns present in the patch are overwritten, every other column
  of the row keeps its value.
\<close>

definition applyDbUpdates :: "DbUpdates \<Rightarrow> StoreRow \<Rightarrow> StoreRow" where
  "applyDbUpdates u r =
     r\<lparr>s_name := (case db_name u of None \<Rightarrow> s_name r | Some v \<Rightarrow> v),
       s_address := (case db_address u of None \<Rightarrow> s_address r | Some v \<Rightarrow> v),
       s_upi_id := (case db_upi_id u of None \<Rightarrow> s_upi_id r | Some v \<Rightarrow> Some v),
       s_lat := (case db_lat u of None \<Rightarrow> s_lat r | Some v \<Rightarrow> v),
       s_lng := (case db_lng u of None \<Rightarrow> s_lng r | Some v \<Rightarrow> v)\<rparr>"

text \<open>
  \<open>updateStoreProfile\<close> on the \<open>stores\<close> table \<open>tbl\<close>: the rows with the given id are
  patched; an error reported by the client is thrown (\<open>Inl\<close>) and nothing is written.
\<close>

definition updateStoreProfile ::
  "string \<Rightarrow> StoreUpdates \<Rightarrow> string option \<Rightarrow> StoreRow list \<Rightarrow> string + StoreRow list" where
  "updateStoreProfile storeId updates writeError tbl =
     (case writeError of
        Some e \<Rightarrow> Inl e
      | None \<Rightarrow>
          Inr (map (\<lambda>r. if s_id r = storeId then applyDbUpdates (dbUpdates updates) r else r) tbl))"

section \<open>Store owner console (components/store/StoreApp.tsx)\<close>

text \<open>Line numbers are those of the full copy of the component, \<open>unnamed/part_007\<close>.\<close>

record BrandOption =
  brand_name :: string
  brand_price :: real

text \<open>
  Modelled from the spec: the type \<open>BrandInventoryInfo\<close> is imported from \<open>types\<close> but its
  declaration is not among the sources. Section 3 gives a variant its own price, reference
  price, stock count and offered flag, which are the four fields the code reads and writes.
\<close>

record BrandInventoryInfo =
  b_price :: real
  b_mrp :: real
  b_stock :: int
  b_inStock :: bool

text \<open>
  \<open>Record<string, BrandInventoryInfo>\<close> is an association list with distinct keys, in
  insertion order.
\<close>

type_synonym BrandDetails = "(string \<times> BrandInventoryInfo) list"

record InventoryItem =
  inv_id :: string
  inv_name :: string
  inv_price :: real
  mrp :: "real option"
  category :: string
  brands :: "BrandOption list option"
  inStock :: bool
  stock :: int
  storePrice :: real
  isActive :: bool
  brandDetails :: "BrandDetails option"

record Store =
  store_id :: string
  store_name :: string
  store_address :: string
  store_lat :: real
  store_lng :: real
  isOpen :: bool
  store_type :: StoreType
  upiId :: "string option"
  ownerId :: "string option"

text \<open>One call of \<open>updateInventoryItem\<close>, as issued towards the data store.\<close>

record InventoryUpsert =
  up_store_id :: string
  up_product_id :: string
  up_price :: real
  up_in_stock :: bool
  up_stock :: int
  up_brand_data :: BrandDetails

text \<open>
  The state of the component: the props and state variables the handlers read or write, the
  \<open>demo_store_inventory\<close> entry of local storage, the upserts sent to the data store and
  the alerts shown.
\<close>

record StoreAppState =
  userId :: "string option"
  myStore :: "Store option"
  inventory :: "InventoryItem list"
  store_orders :: "Order list"
  draftPrices :: "string \<rightharpoonup> real"
  draftMrps :: "string \<rightharpoonup> real"
  draftStocks :: "string \<rightharpoonup> int"
  demo_store_inventory :: "InventoryItem list option"
  upserts :: "InventoryUpsert list"
  alerts :: "string list"

subsection \<open>Inventory\<close>

text \<open>\<open>a || b\<close> on an optional number: zero and \<open>undefined\<close> are falsy.\<close>

definition orNumber :: "real option \<Rightarrow> real \<Rightarrow> real" where
  "orNumber a b = (case a of None \<Rightarrow> b | Some x \<Rightarrow> if x = 0 then b else x)"

text \<open>\<open>d || {}\<close> on optional brand details.\<close>

definition orEmpty :: "BrandDetails option \<Rightarrow> BrandDetails" where
  "orEmpty d = (case d of None \<Rightarrow> [] | Some al \<Rightarrow> al)"

text \<open>\<open>{...obj, [k]: v}\<close>: an existing key keeps its position, a new one goes last.\<close>

fun setKey :: "'k \<Rightarrow> 'v \<Rightarrow> ('k \<times> 'v) list \<Rightarrow> ('k \<times> 'v) list" where
  "setKey k v [] = [(k, v)]"
| "setKey k v (p # ps) = (if fst p = k then (k, v) # ps else p # setKey k v ps)"

definition handleInventoryUpdate ::
  "StoreAppState \<Rightarrow> InventoryItem \<Rightarrow> real option \<Rightarrow> bool \<Rightarrow> int \<Rightarrow> real option \<Rightarrow>
   BrandDetails option \<Rightarrow> StoreAppState" where
  "handleInventoryUpdate st product newPrice newStockStatus newStockQty newMrp newBrandDetails =
     (case myStore st of
        None \<Rightarrow> st
      | Some store \<Rightarrow>
          (let finalMrp = (case newMrp of Some m \<Rightarrow> m
                           | None \<Rightarrow> orNumber (mrp product) (inv_price product));
               finalPrice = (case newPrice of Some p \<Rightarrow> p | None \<Rightarrow> storePrice product);
               finalBrandDetails = (case newBrandDetails of Some d \<Rightarrow> d
                                    | None \<Rightarrow> orEmpty (brandDetails product));
               updatedInventory =
                 map (\<lambda>item. if inv_id item = inv_id product
                              then item\<lparr>mrp := Some finalMrp, inStock := newStockStatus,
                                        stock := newStockQty, storePrice := finalPrice,
                                        isActive := True,
                                        brandDetails := Some finalBrandDetails\<rparr>
                              else item) (inventory st);
               st1 = st\<lparr>inventory := updatedInventory\<rparr>;
               st2 = (if newStockStatus
                      then st1\<lparr>draftPrices := (draftPrices st1)(inv_id product := None),
                               draftMrps := (draftMrps st1)(inv_id product := None),
                               draftStocks := (draftStocks st1)(inv_id product := None)\<rparr>
                      else st1)
           in if userId st = Some ''demo-user''
              then st2\<lparr>demo_store_inventory := Some updatedInventory\<rparr>
              else st2\<lparr>upserts := upserts st2 @
                         [\<lparr>up_store_id = store_id store, up_product_id = inv_id product,
                           up_price = finalPrice, up_in_stock = newStockStatus,
                           up_stock = newStockQty, up_brand_data = finalBrandDetails\<rparr>]\<rparr>))"

text \<open>The field and value of a per-variant update, as the four call sites pass them.\<close>

datatype BrandField = Price real | Mrp real | Stock int | InStock bool

definition setField :: "BrandInventoryInfo \<Rightarrow> BrandField \<Rightarrow> BrandInventoryInfo" where
  "setField b f =
     (case f of
        Price v \<Rightarrow> b\<lparr>b_price := v\<rparr>
      | Mrp v \<Rightarrow> b\<lparr>b_mrp := v\<rparr>
      | Stock v \<Rightarrow> b\<lparr>b_stock := v\<rparr>
      | InStock v \<Rightarrow> b\<lparr>b_inStock := v\<rparr>)"

definition isStockField :: "BrandField \<Rightarrow> bool" where
  "isStockField f = (case f of Stock v \<Rightarrow> True | InStock v \<Rightarrow> True | _ \<Rightarrow> False)"

text \<open>
  The locals of \<open>handleBrandInventoryUpdate\<close>: the current record of the variant (or
  its default), the brand details after the update, and the stock count passed on.
\<close>

definition brandInfo :: "InventoryItem \<Rightarrow> string \<Rightarrow> BrandInventoryInfo" where
  "brandInfo product brandName =
     (case map_of (orEmpty (brandDetails product)) brandName of
        Some b \<Rightarrow> b
      | None \<Rightarrow>
          \<lparr>b_price = storePrice product,
           b_mrp = orNumber
                     (case brands product of
                        None \<Rightarrow> None
                      | Some bs \<Rightarrow>
                          map_option brand_price (find (\<lambda>b. brand_name b = brandName) bs))
                     (orNumber (mrp product) (inv_price product)),
           b_stock = 0,
           b_inStock = True\<rparr>)"

definition newBrandDetails :: "InventoryItem \<Rightarrow> string \<Rightarrow> BrandField \<Rightarrow> BrandDetails" where
  "newBrandDetails product brandName field =
     setKey brandName (setField (brandInfo product brandName) field)
       (orEmpty (brandDetails product))"

definition newTotalStock :: "InventoryItem \<Rightarrow> string \<Rightarrow> BrandField \<Rightarrow> int" where
  "newTotalStock product brandName field =
     (if isStockField field
      then foldl (\<lambda>sum b. sum + (if b_inStock b then b_stock b else 0)) 0
             (map snd (newBrandDetails product brandName field))
      else stock product)"

definition handleBrandInventoryUpdate ::
  "StoreAppState \<Rightarrow> InventoryItem \<Rightarrow> string \<Rightarrow> BrandField \<Rightarrow> StoreAppState" where
  "handleBrandInventoryUpdate st product brandName field =
     handleInventoryUpdate st product (Some (storePrice product)) (inStock product)
       (newTotalStock product brandName field) (mrp product)
       (Some (newBrandDetails product brandName field))"

text \<open>The large status toggle of an inventory row (the \<open>onClick\<close> at line 726).\<close>

definition toggleInStock :: "StoreAppState \<Rightarrow> InventoryItem \<Rightarrow> StoreAppState" where
  "toggleInStock st item =
     handleInventoryUpdate st item (Some (storePrice item)) (\<not> inStock item) (stock item)
       (mrp item) None"

subsection \<open>Incoming orders\<close>

text \<open>
  The status buttons rendered for an order (lines 986-1002): each condition on
  \<open>order.status\<close> contributes the statuses its buttons pass to \<open>handleOrderStatus\<close>. The
  mode of the order is not consulted.
\<close>

definition statusButtons :: "string \<Rightarrow> string list" where
  "statusButtons s =
     (if s = ''Placed'' then [''Rejected'', ''Accepted''] else []) @
     (if s = ''Accepted'' then [''Preparing''] else []) @
     (if s = ''Preparing'' then [''Ready''] else []) @
     (if s = ''Ready'' then [''Picked Up''] else [])"

text \<open>
  \<open>handleOrderStatus\<close>. For the demo user the status is set in the local list. Otherwise
  the status is written (\<open>writeError\<close> is what \<open>updateStoreOrderStatus\<close> throws, if it
  does) and the incoming orders are fetched again; \<open>ordersQuery\<close> and \<open>profilesQuery\<close> are
  the outcomes of the queries of that fetch.
\<close>

definition handleOrderStatus ::
  "StoreAppState \<Rightarrow> string \<Rightarrow> string \<Rightarrow> string option \<Rightarrow> OrderRow list response \<Rightarrow>
   (string list \<Rightarrow> ProfileRow list response) \<Rightarrow> StoreAppState" where
  "handleOrderStatus st orderId newStatus writeError ordersQuery profilesQuery =
     (if userId st = Some ''demo-user''
      then st\<lparr>store_orders :=
                map (\<lambda>od. if order_id od = orderId then od\<lparr>status := newStatus\<rparr> else od)
                  (store_orders st)\<rparr>
      else
        (case writeError of
           Some e \<Rightarrow> st\<lparr>alerts := alerts st @ [''Failed to update status'']\<rparr>
         | None \<Rightarrow>
             (case myStore st of
                None \<Rightarrow> st
              | Some store \<Rightarrow>
                  st\<lparr>store_orders := getIncomingOrders ordersQuery profilesQuery\<rparr>)))"

text \<open>
  The mock order of the demo store. Its single line item is built from the first catalog
  product (the catalog \<open>INITIAL_PRODUCTS\<close> is not among the sources), so the items and the
  current date are parameters.
\<close>

definition demoOrders :: "CartItem list \<Rightarrow> string \<Rightarrow> Order list" where
  "demoOrders mockItems now =
     [\<lparr>order_id = ''demo-ord-1'', date = now, items = mockItems, total = 120,
       status = ''Placed'', paymentStatus = PAID, mode = DELIVERY, deliveryType = INSTANT,
       scheduledTime = None, deliveryAddress = Some ''12th Main, Indiranagar'',
       storeName = ''My Demo Store'', storeLocation = None,
       userLocation = Some \<lparr>lat = 1297 / 100, lng = 7764 / 100\<rparr>, splits = None,
       customerName = Some ''Rahul Dravid'', customerPhone = Some ''9876543210''\<rparr>]"

text \<open>
  The data-sync effect (lines 202-291), run once a store is known. \<open>loaded\<close> is the
  inventory it installs (from local storage or the catalog for the demo user, from
  \<open>getStoreInventory\<close> otherwise).
\<close>

definition dataSync ::
  "StoreAppState \<Rightarrow> InventoryItem list \<Rightarrow> CartItem list \<Rightarrow> string \<Rightarrow>
   OrderRow list response \<Rightarrow> (string list \<Rightarrow> ProfileRow list response) \<Rightarrow> StoreAppState" where
  "dataSync st loaded mockItems now ordersQuery profilesQuery =
     (case myStore st of
        None \<Rightarrow> st
      | Some store \<Rightarrow>
          if userId st = Some ''demo-user''
          then st\<lparr>inventory := loaded, store_orders := demoOrders mockItems now\<rparr>
          else st\<lparr>inventory := loaded,
                  store_orders := getIncomingOrders ordersQuery profilesQuery\<rparr>)"

text \<open>
  The handler of the \<open>store-orders-sync\<close> channel (lines 276-285); the channel is
  subscribed only past the demo branch of the effect.
\<close>

definition orderSub ::
  "StoreAppState \<Rightarrow> OrderRow list response \<Rightarrow> (string list \<Rightarrow> ProfileRow list response) \<Rightarrow>
   StoreAppState" where
  "orderSub st ordersQuery profilesQuery =
     (case myStore st of
        None \<Rightarrow> st
      | Some store \<Rightarrow>
          if userId st = Some ''demo-user'' then st
          else st\<lparr>store_orders := getIncomingOrders ordersQuery profilesQuery\<rparr>)"

text \<open>Everything that happens to the order list of the console, as a run of events.\<close>

datatype StoreEvent =
    DataSync "InventoryItem list" "CartItem list" string
      "OrderRow list response" "string list \<Rightarrow> ProfileRow list response"
  | OrderChange "OrderRow list response" "string list \<Rightarrow> ProfileRow list response"
  | StatusClick string string "string option"
      "OrderRow list response" "string list \<Rightarrow> ProfileRow list response"

fun storeEvent :: "StoreEvent \<Rightarrow> StoreAppState \<Rightarrow> StoreAppState" where
  "storeEvent (DataSync loaded mockItems now q p) st = dataSync st loaded mockItems now q p"
| "storeEvent (OrderChange q p) st = orderSub st q p"
| "storeEvent (StatusClick orderId newStatus writeError q p) st =
     handleOrderStatus st orderId newStatus writeError q p"

definition storeRun :: "StoreEvent list \<Rightarrow> StoreAppState \<Rightarrow> StoreAppState" where
  "storeRun events st = fold storeEvent events st"

text \<open>All orders of a list are paid and instant.\<close>

definition paidInstant :: "Order list \<Rightarrow> bool" where
  "paidInstant ods = (\<forall>od \<in> set ods. paymentStatus od = PAID \<and> deliveryType od = INSTANT)"

section \<open>Customer application (components/customer/CustomerApp.tsx)\<close>

record Product =
  p_id :: string
  p_name :: string
  p_price :: real

record UserState =
  user_id :: "string option"
  user_name :: "string option"
  user_phone :: string
  user_address :: "string option"

text \<open>The checkout details handed to \<open>handlePlaceOrder\<close>: the fields read later.\<close>

record PendingOrderDetails =
  pd_deliveryType :: DeliveryType
  pd_scheduledTime :: "string option"
  pd_splits :: "PaymentSplit option"

datatype View = HOME | STORE | ORDERS | PROFILE | CART

text \<open>
  The state of the component. \<open>savedOrders\<close> collects the calls of \<open>saveOrder\<close>, each with
  the user id it was given.
\<close>

record CustomerState =
  cart :: "CartItem list"
  storeProducts :: "Product list"
  selectedStore :: "Store option"
  pendingOrderDetails :: "PendingOrderDetails option"
  showPayment :: bool
  activeView :: View
  currentLocation :: "LatLng option"
  savedOrders :: "(string \<times> Order) list"

datatype js_error = TypeError | SaveError string

text \<open>\<open>Array.prototype.findIndex\<close>, with \<open>None\<close> for the result \<open>-1\<close>.\<close>

fun findIndex :: "('a \<Rightarrow> bool) \<Rightarrow> 'a list \<Rightarrow> nat option" where
  "findIndex P [] = None"
| "findIndex P (x # xs) = (if P x then Some 0 else map_option Suc (findIndex P xs))"

text \<open>
  \<open>addToCart\<close>; \<open>now\<close> is \<open>Date.now()\<close> in decimal. An existing line for the same product
  and brand only has its quantity raised.
\<close>

definition addToCart ::
  "CustomerState \<Rightarrow> Product \<Rightarrow> int \<Rightarrow> string \<Rightarrow> real option \<Rightarrow> string \<Rightarrow> CustomerState" where
  "addToCart st product qty brandName newPrice now =
     (case selectedStore st of
        None \<Rightarrow> st
      | Some sel \<Rightarrow>
          (let finalPrice = orNumber newPrice (p_price product)
           in case findIndex (\<lambda>item. originalProductId item = p_id product \<and>
                                      selectedBrand item = brandName) (cart st) of
                Some existingIdx \<Rightarrow>
                  st\<lparr>cart := (cart st)[existingIdx :=
                        (cart st ! existingIdx)
                          \<lparr>quantity := quantity (cart st ! existingIdx) + qty\<rparr>]\<rparr>
              | None \<Rightarrow>
                  st\<lparr>cart := cart st @
                        [\<lparr>item_id = p_id product @ ''-'' @ brandName @ ''-'' @ now,
                          item_name = p_name product,
                          price = finalPrice,
                          quantity = qty,
                          selectedBrand = brandName,
                          originalProductId = p_id product,
                          item_storeId = store_id sel,
                          item_storeName = store_name sel,
                          storeType = store_type sel\<rparr>]\<rparr>))"

definition updateQuantity :: "CustomerState \<Rightarrow> string \<Rightarrow> int \<Rightarrow> CustomerState" where
  "updateQuantity st cartItemId delta =
     st\<lparr>cart :=
          filter (\<lambda>item. quantity item > 0)
            (map (\<lambda>item. if item_id item = cartItemId
                         then item\<lparr>quantity := max 0 (quantity item + delta)\<rparr>
                         else item) (cart st))\<rparr>"

definition handlePlaceOrder :: "CustomerState \<Rightarrow> PendingOrderDetails option \<Rightarrow> CustomerState" where
  "handlePlaceOrder st details = st\<lparr>pendingOrderDetails := details, showPayment := True\<rparr>"

text \<open>
  The callback of \<open>subscribeToStoreInventory\<close> (lines 89-91): the products of the selected
  store, fetched again, replace \<open>storeProducts\<close>.
\<close>

definition refreshStoreProducts :: "CustomerState \<Rightarrow> Product list \<Rightarrow> CustomerState" where
  "refreshStoreProducts st products = st\<lparr>storeProducts := products\<rparr>"

text \<open>The local \<open>totalAmount\<close> of \<open>handlePaymentSuccess\<close>: a left fold from zero.\<close>

definition totalAmount :: "CartItem list \<Rightarrow> real" where
  "totalAmount c = foldl (\<lambda>sum item. sum + price item * real_of_int (quantity item)) 0 c"

text \<open>
  The object literal \<open>newOrder\<close>; \<open>oid\<close> and \<open>now\<close> are the id and the date derived from
  the clock. Reading \<open>cart[0].storeName\<close> of an empty cart throws a \<open>TypeError\<close>.
\<close>

definition newOrder ::
  "UserState \<Rightarrow> string \<Rightarrow> string \<Rightarrow> CustomerState \<Rightarrow> PendingOrderDetails \<Rightarrow> js_error + Order" where
  "newOrder user oid now st details =
     (case cart st of
        [] \<Rightarrow> Inl TypeError
      | first # rest \<Rightarrow>
          Inr \<lparr>order_id = oid, date = now, items = cart st, total = totalAmount (cart st),
               status = ''Pending'', paymentStatus = PAID, mode = DELIVERY,
               deliveryType = pd_deliveryType details,
               scheduledTime = pd_scheduledTime details,
               deliveryAddress = Some (orString (user_address user) ''Current Location''),
               storeName = item_storeName first,
               storeLocation =
                 map_option (\<lambda>s. \<lparr>lat = store_lat s, lng = store_lng s\<rparr>) (selectedStore st),
               userLocation = currentLocation st,
               splits = pd_splits details,
               customerName = user_name user,
               customerPhone = Some (user_phone user)\<rparr>)"

text \<open>
  Modelled from the spec: \<open>saveOrder\<close> belongs to the module \<open>orderService\<close>, which is not
  among the sources. By section 4.1 the new order is persisted for its customer; here it
  is appended to the saved orders, and \<open>saveError\<close> is the error the call throws, if any.
\<close>

definition saveOrder ::
  "string \<Rightarrow> Order \<Rightarrow> string option \<Rightarrow> (string \<times> Order) list \<Rightarrow>
   js_error + (string \<times> Order) list" where
  "saveOrder uid od saveError saved =
     (case saveError of Some e \<Rightarrow> Inl (SaveError e) | None \<Rightarrow> Inr (saved @ [(uid, od)]))"

text \<open>
  \<open>handlePaymentSuccess\<close>. \<open>Inr\<close> carries the state the handler leaves behind, \<open>Inl\<close> the
  exception that rejects its promise, in which case no state was set.
\<close>

definition handlePaymentSuccess ::
  "UserState \<Rightarrow> string \<Rightarrow> string \<Rightarrow> string option \<Rightarrow> CustomerState \<Rightarrow>
   js_error + CustomerState" where
  "handlePaymentSuccess user oid now saveError st =
     (case pendingOrderDetails st of
        None \<Rightarrow> Inr st
      | Some details \<Rightarrow>
          (case newOrder user oid now st details of
             Inl e \<Rightarrow> Inl e
           | Inr od \<Rightarrow>
               (case truthyString (user_id user) of
                  None \<Rightarrow> Inr (st\<lparr>cart := [], showPayment := False, activeView := ORDERS\<rparr>)
                | Some uid \<Rightarrow>
                    (case saveOrder uid od saveError (savedOrders st) of
                       Inl e \<Rightarrow> Inl e
                     | Inr saved \<Rightarrow>
                         Inr (st\<lparr>cart := [], showPayment := False, activeView := ORDERS,
                                 savedOrders := saved\<rparr>)))))"

section \<open>Properties as the specification words them\<close>

text \<open>
  The progression of section 4.2 of the specification, per fulfilment mode, and what it
  means for a status change to follow it: the new status is the successor of the old one
  in the progression of the order's mode, or it is a terminal \<open>Rejected\<close> or \<open>Cancelled\<close>.
\<close>

definition spec_progression :: "OrderMode \<Rightarrow> string list" where
  "spec_progression m =
     (if m = DELIVERY
      then [''Placed'', ''Accepted'', ''Preparing'', ''On the way'', ''Delivered'']
      else [''Placed'', ''Accepted'', ''Preparing'', ''Ready'', ''Picked Up''])"

text \<open>The consecutive pairs of a list.\<close>

definition successors :: "'a list \<Rightarrow> ('a \<times> 'a) list" where
  "successors xs = zip xs (tl xs)"

definition spec_follows :: "OrderMode \<Rightarrow> string \<Rightarrow> string \<Rightarrow> bool" where
  "spec_follows m s s' =
     (s' = ''Rejected'' \<or> s' = ''Cancelled'' \<or> (s, s') \<in> set (successors (spec_progression m)))"

text \<open>
  The sum of stock over exactly the variants marked offered, as section 4.4 words the
  aggregate stock count.
\<close>

definition spec_offeredStock :: "BrandDetails \<Rightarrow> int" where
  "spec_offeredStock d = sum_list (map b_stock (filter b_inStock (map snd d)))"

text \<open>The sum over the line items of unit price times quantity, as section 3 words the total.\<close>

definition spec_total :: "CartItem list \<Rightarrow> real" where
  "spec_total its = (\<Sum>it\<leftarrow>its. price it * real_of_int (quantity it))"

section \<open>Sample data\<close>

text \<open>An order with the given status, mode, delivery sub-type and payment status.\<close>

definition sampleOrder :: "string \<Rightarrow> OrderMode \<Rightarrow> DeliveryType \<Rightarrow> PaymentStatus \<Rightarrow> Order" where
  "sampleOrder s m d p =
     \<lparr>order_id = ''ord-1'', date = ''2024-01-01T00:00:00.000Z'', items = [], total = 0,
      status = s, paymentStatus = p, mode = m, deliveryType = d,
      scheduledTime = None, deliveryAddress = None, storeName = ''Store'',
      storeLocation = None, userLocation = None, splits = None,
      customerName = None, customerPhone = None\<rparr>"

text \<open>The console of the demo user, showing the mock order.\<close>

definition sampleStoreState :: StoreAppState where
  "sampleStoreState =
     \<lparr>userId = Some ''demo-user'',
      myStore = Some \<lparr>store_id = ''demo-store-1'', store_name = ''My Demo Store'',
                      store_address = ''Indiranagar, Bangalore'', store_lat = 129716 / 10000,
                      store_lng = 775946 / 10000, isOpen = True, store_type = general,
                      upiId = Some ''demo@upi'', ownerId = Some ''demo-user''\<rparr>,
      inventory = [],
      store_orders = demoOrders [] ''2024-01-01T00:00:00.000Z'',
      draftPrices = Map.empty, draftMrps = Map.empty, draftStocks = Map.empty,
      demo_store_inventory = None, upserts = [], alerts = []\<rparr>"

text \<open>
  A row of the \<open>orders\<close> table whose further columns say that the order is unpaid and
  scheduled.
\<close>

definition sampleRow :: OrderRow where
  "sampleRow =
     \<lparr>row_id = ''ord-1'', created_at = ''2024-01-01T00:00:00.000Z'', row_items = [],
      total_amount = 120, row_status = ''placed'', row_type = None,
      delivery_lat = 0, delivery_lng = 0, delivery_address = None,
      customer_id = Some ''cust-1'',
      row_extra = [(''payment_status'', ''PENDING''), (''delivery_type'', ''SCHEDULED'')]\<rparr>"

text \<open>A profiles query that reports an error for whatever ids it is given.\<close>

definition failingProfiles :: "string list \<Rightarrow> ProfileRow list response" where
  "failingProfiles ids = Response None (Some ''timeout'')"

text \<open>The console of a registered owner before anything was loaded.\<close>

definition sampleLiveState :: StoreAppState where
  "sampleLiveState = sampleStoreState\<lparr>userId := Some ''owner-1'', store_orders := []\<rparr>"

text \<open>A row of the \<open>stores\<close> table, and a profile form with an empty name and a zero latitude.\<close>

definition sampleStoreRow :: StoreRow where
  "sampleStoreRow =
     \<lparr>s_id = ''store-1'', s_name = ''Corner Shop'', s_address = ''Old Road 1'', s_rating = 4,
      s_lat = 13, s_lng = 77, s_is_open = True, s_type = general,
      s_upi_id = Some ''shop@upi'', s_owner_id = Some ''owner-1''\<rparr>"

definition sampleUpdates :: StoreUpdates where
  "sampleUpdates =
     \<lparr>u_id = None, u_name = Some [], u_address = Some ''New Road 2'', u_rating = Some 5,
      u_distance = None, u_lat = Some 0, u_lng = Some 78, u_isOpen = Some False,
      u_type = None, u_availableProductIds = None, u_upiId = None, u_ownerId = None\<rparr>"

text \<open>
  An inventory item with two brand variants, the first offered with five units, the second
  not offered with seven; and the console of a registered owner listing it.
\<close>

definition sampleItem :: InventoryItem where
  "sampleItem =
     \<lparr>inv_id = ''41'', inv_name = ''Milk'', inv_price = 30, mrp = Some 32,
      category = ''Dairy'',
      brands = Some [\<lparr>brand_name = ''Amul'', brand_price = 33\<rparr>,
                     \<lparr>brand_name = ''Nandini'', brand_price = 31\<rparr>],
      inStock = True, stock = 5, storePrice = 30, isActive = True,
      brandDetails =
        Some [(''Amul'', \<lparr>b_price = 32, b_mrp = 33, b_stock = 5, b_inStock = True\<rparr>),
              (''Nandini'', \<lparr>b_price = 30, b_mrp = 31, b_stock = 7, b_inStock = False\<rparr>)]\<rparr>"

definition sampleInventoryState :: StoreAppState where
  "sampleInventoryState = sampleLiveState\<lparr>inventory := [sampleItem]\<rparr>"

text \<open>
  A customer with two lines in the cart (two units at 50, one unit at 20), checkout
  details pending; and the same customer with an empty cart.
\<close>

definition sampleCart :: "CartItem list" where
  "sampleCart =
     [\<lparr>item_id = ''1-Generic-1700000000000'', item_name = ''Rice'', price = 50, quantity = 2,
       selectedBrand = ''Generic'', originalProductId = ''1'', item_storeId = ''store-1'',
       item_storeName = ''Corner Shop'', storeType = general\<rparr>,
      \<lparr>item_id = ''41-Amul-1700000000001'', item_name = ''Milk'', price = 20, quantity = 1,
       selectedBrand = ''Amul'', originalProductId = ''41'', item_storeId = ''store-1'',
       item_storeName = ''Corner Shop'', storeType = general\<rparr>]"

definition sampleUser :: UserState where
  "sampleUser =
     \<lparr>user_id = Some ''user-1'', user_name = Some ''Asha'', user_phone = ''9000000000'',
      user_address = None\<rparr>"

definition sampleDetails :: PendingOrderDetails where
  "sampleDetails = \<lparr>pd_deliveryType = INSTANT, pd_scheduledTime = None, pd_splits = None\<rparr>"

definition sampleCustomerState :: CustomerState where
  "sampleCustomerState =
     \<lparr>cart = sampleCart, storeProducts = [], selectedStore = None,
      pendingOrderDetails = Some sampleDetails, showPayment = True, activeView = CART,
      currentLocation = None, savedOrders = []\<rparr>"

definition emptyCartState :: CustomerState where
  "emptyCartState = sampleCustomerState\<lparr>cart := []\<rparr>"

section \<open>The demo simulator\<close>


lemma orders_simulatorTick: "orders (simulatorTick st) = map simulatorStep (orders st)"
  by (simp add: simulatorTick_def Let_def)

lemma orders_simulatorTick_pow:
  "orders ((simulatorTick ^^ n) st) = map (simulatorStep ^^ n) (orders st)"
proof (induction n arbitrary: st)
  case 0
  show ?case by simp
next
  case (Suc n)
  have "orders ((simulatorTick ^^ Suc n) st) = map simulatorStep (orders ((simulatorTick ^^ n) st))"
    by (simp add: orders_simulatorTick)
  also have "\<dots> = map simulatorStep (map (simulatorStep ^^ n) (orders st))"
    by (simp only: Suc.IH)
  finally show ?case by simp
qed

lemma simulatorStep_pow_nth:
  "i < length (orders st) \<Longrightarrow>
   orders ((simulatorTick ^^ n) st) ! i = (simulatorStep ^^ n) (orders st ! i)"
  by (simp add: orders_simulatorTick_pow)

lemma simulatorStep_frozen:
  "deliveryType od = SCHEDULED \<Longrightarrow> paymentStatus od = PENDING \<Longrightarrow> (simulatorStep ^^ n) od = od"
  by (induction n) (simp_all add: simulatorStep_def)

subsection \<open>Three ticks to delivery\<close>

lemma pending_delivery_paid_trace:
  assumes "i < length (orders st)"
    and "status (orders st ! i) = ''Pending''"
    and "mode (orders st ! i) = DELIVERY"
    and "paymentStatus (orders st ! i) = PAID"
  shows "map (\<lambda>k. status (orders (simulator (Some ''demo-user'') k st) ! i)) [0, 1, 2, 3] =
         [''Pending'', ''Preparing'', ''On the way'', ''Delivered'']"
proof -
  have "map (\<lambda>k. status ((simulatorStep ^^ k) (orders st ! i))) [0, 1, 2, 3] =
        [''Pending'', ''Preparing'', ''On the way'', ''Delivered'']"
    using assms(2-4) by (simp add: simulatorStep_def numeral_2_eq_2 numeral_3_eq_3)
  then show ?thesis
    using assms(1) by (simp add: simulator_def simulatorStep_pow_nth)
qed

lemma newOrder_placed_delivery_paid:
  "newOrder user oid now cst details = Inr od \<Longrightarrow>
   status od = ''Pending'' \<and> mode od = DELIVERY \<and> paymentStatus od = PAID"
  by (auto simp add: newOrder_def split: list.splits)

text \<open>
  Claim C2. An order as it is created is in the placed state (its status is the string
  \<open>Pending\<close>, which the timeline labels "Placed"), has mode \<open>DELIVERY\<close> and payment status
  \<open>PAID\<close>. Held by the demo-mode simulator at any position of the list, it shows
  \<open>Preparing\<close> after one tick of the interval, \<open>On the way\<close> after two and \<open>Delivered\<close>
  after exactly three, one step per tick; the timeline labels it Placed, Packing, On Way
  and Delivered in turn.
\<close>

theorem created_order_delivered_after_three_ticks:
  assumes "newOrder user oid now cst details = Inr od"
    and "i < length (orders st)"
    and "orders st ! i = od"
  shows "getLabel (status od) = ''Placed'' \<and> mode od = DELIVERY \<and> paymentStatus od = PAID \<and>
         map (\<lambda>k. status (orders (simulator (Some ''demo-user'') k st) ! i)) [0, 1, 2, 3] =
           [''Pending'', ''Preparing'', ''On the way'', ''Delivered''] \<and>
         map (\<lambda>k. getLabel (status (orders (simulator (Some ''demo-user'') k st) ! i)))
           [0, 1, 2, 3] = [''Placed'', ''Packing'', ''On Way'', ''Delivered'']"
proof -
  have od: "status od = ''Pending'' \<and> mode od = DELIVERY \<and> paymentStatus od = PAID"
    using assms(1) by (rule newOrder_placed_delivery_paid)
  have tr: "map (\<lambda>k. status (orders (simulator (Some ''demo-user'') k st) ! i)) [0, 1, 2, 3] =
            [''Pending'', ''Preparing'', ''On the way'', ''Delivered'']"
  proof (rule pending_delivery_paid_trace)
    show "i < length (orders st)" by (rule assms(2))
    show "status (orders st ! i) = ''Pending''" using od assms(3) by simp
    show "mode (orders st ! i) = DELIVERY" using od assms(3) by simp
    show "paymentStatus (orders st ! i) = PAID" using od assms(3) by simp
  qed
  have "map (\<lambda>k. getLabel (status (orders (simulator (Some ''demo-user'') k st) ! i)))
          [0, 1, 2, 3] =
        map getLabel (map (\<lambda>k. status (orders (simulator (Some ''demo-user'') k st) ! i))
          [0, 1, 2, 3])"
    by simp
  also have "\<dots> = [''Placed'', ''Packing'', ''On Way'', ''Delivered'']"
    unfolding tr by (simp add: getLabel_def)
  finally show ?thesis
    using od tr by (simp add: getLabel_def)
qed

text \<open>
  The theorem at the order created from a cart of two lines, held alone by the simulator.
\<close>

theorem created_order_delivered_after_three_ticks_witness:
  "(case newOrder sampleUser ''ord-1700000000002'' ''2024-01-01T00:00:00.000Z''
          sampleCustomerState sampleDetails of
      Inl err \<Rightarrow> False
    | Inr od \<Rightarrow>
        getLabel (status od) = ''Placed'' \<and> mode od = DELIVERY \<and> paymentStatus od = PAID \<and>
        map (\<lambda>k. status (orders (simulator (Some ''demo-user'') k
              \<lparr>orders = [od], grocesphere_orders = None\<rparr>) ! 0)) [0, 1, 2, 3] =
          [''Pending'', ''Preparing'', ''On the way'', ''Delivered''])"
proof -
  obtain od where od: "newOrder sampleUser ''ord-1700000000002'' ''2024-01-01T00:00:00.000Z''
      sampleCustomerState sampleDetails = Inr od"
    by (simp add: newOrder_def sampleCustomerState_def sampleCart_def)
  from created_order_delivered_after_three_ticks
    [OF od, of 0 "\<lparr>orders = [od], grocesphere_orders = None\<rparr>"]
  show ?thesis
    by (simp add: od)
qed

subsection \<open>Unpaid orders\<close>

text \<open>
  Claim C6, amended. An order whose delivery sub-type is \<open>SCHEDULED\<close> and whose payment
  status is \<open>PENDING\<close> is left exactly as it is by the simulator, for every number of ticks
  and every user.
\<close>

theorem simulator_scheduled_unpaid_frozen:
  assumes "i < length (orders st)"
    and "deliveryType (orders st ! i) = SCHEDULED"
    and "paymentStatus (orders st ! i) = PENDING"
  shows "orders (simulator uid ticks st) ! i = orders st ! i"
  using assms by (simp add: simulator_def simulatorStep_pow_nth simulatorStep_frozen)

text \<open>The theorem at a scheduled unpaid order, after seven ticks.\<close>

theorem simulator_scheduled_unpaid_frozen_witness:
  "orders (simulator (Some ''demo-user'') 7
     \<lparr>orders = [sampleOrder ''Pending'' DELIVERY SCHEDULED PENDING], grocesphere_orders = None\<rparr>) ! 0
   = sampleOrder ''Pending'' DELIVERY SCHEDULED PENDING"
  using simulator_scheduled_unpaid_frozen
    [of 0 "\<lparr>orders = [sampleOrder ''Pending'' DELIVERY SCHEDULED PENDING], grocesphere_orders = None\<rparr>"
        "Some ''demo-user''" 7]
  by (simp add: sampleOrder_def)

text \<open>
  Claim C6 as stated fails for the delivery sub-type \<open>INSTANT\<close>: the guard of the simulator
  asks for \<open>SCHEDULED\<close>, so an instant order with payment status \<open>PENDING\<close> moves from
  \<open>Pending\<close> to \<open>Preparing\<close> at the first tick.
\<close>

theorem instant_unpaid_order_advances_counterexample:
  "paymentStatus (sampleOrder ''Pending'' DELIVERY INSTANT PENDING) = PENDING \<and>
   status (orders (simulator (Some ''demo-user'') 1
       \<lparr>orders = [sampleOrder ''Pending'' DELIVERY INSTANT PENDING], grocesphere_orders = None\<rparr>) ! 0)
     = ''Preparing''"
  by (simp add: simulator_def orders_simulatorTick simulatorStep_def sampleOrder_def)

section \<open>The progress indicator\<close>

lemma indexOf_absent: "x \<notin> set xs \<Longrightarrow> indexOf xs x = - 1"
  by (induction xs) (auto simp: Let_def)

lemma steps_getStatusInfo:
  "steps (getStatusInfo st m) = (if m = DELIVERY then deliverySteps else pickupSteps)"
  by (simp add: getStatusInfo_def Let_def)

lemma length_steps_getStatusInfo: "length (steps (getStatusInfo st m)) = 4"
  by (simp add: steps_getStatusInfo deliverySteps_def pickupSteps_def)

text \<open>
  Claim C3, amended. For every status string that is not a member of the step list of the
  order's mode, the progress computation yields the index \<open>-1\<close> that \<open>indexOf\<close> returns for
  a missing element, and the progress value \<open>(-1 / 3) * 100\<close>; no step of the timeline is
  then active or done, all are future. The computation has no failing branch: it returns
  this result for every string, in particular for \<open>Placed\<close>, \<open>Accepted\<close> and unknown ones.
\<close>

theorem getStatusInfo_unlisted_status:
  assumes "st \<notin> set (steps (getStatusInfo st m))"
  shows "currentIndex (getStatusInfo st m) = - 1 \<and>
         progress (getStatusInfo st m) = - (100 / 3) \<and>
         (\<forall>i. \<not> isActive_at (getStatusInfo st m) i \<and> \<not> isDone_at (getStatusInfo st m) i \<and>
              isFuture_at (getStatusInfo st m) i)"
proof -
  have idx: "currentIndex (getStatusInfo st m) = - 1"
    using assms indexOf_absent [of st "steps (getStatusInfo st m)"]
    by (simp add: getStatusInfo_def Let_def)
  have "progress (getStatusInfo st m) =
        real_of_int (currentIndex (getStatusInfo st m)) /
          real_of_int (int (length (steps (getStatusInfo st m))) - 1) * 100"
    by (simp add: getStatusInfo_def Let_def)
  then have "progress (getStatusInfo st m) = - (100 / 3)"
    by (simp add: idx length_steps_getStatusInfo)
  then show ?thesis
    by (simp add: idx isActive_at_def isDone_at_def isFuture_at_def)
qed

text \<open>The theorem at the status \<open>Accepted\<close> of a pickup order.\<close>

theorem getStatusInfo_unlisted_status_witness:
  "currentIndex (getStatusInfo ''Accepted'' PICKUP) = - 1 \<and>
   progress (getStatusInfo ''Accepted'' PICKUP) = - (100 / 3) \<and>
   (\<forall>i. \<not> isActive_at (getStatusInfo ''Accepted'' PICKUP) i \<and>
        \<not> isDone_at (getStatusInfo ''Accepted'' PICKUP) i \<and>
        isFuture_at (getStatusInfo ''Accepted'' PICKUP) i)"
proof -
  have "''Accepted'' \<notin> set (steps (getStatusInfo ''Accepted'' PICKUP))"
    by (simp add: steps_getStatusInfo pickupSteps_def)
  then show ?thesis
    by (rule getStatusInfo_unlisted_status)
qed

text \<open>
  Claim C3 as stated fails: \<open>Placed\<close> is not in the step list of a delivery order, and
  neither the index computed for it, nor the fraction index / (steps.length - 1), nor the
  progress value is zero.
\<close>

theorem placed_status_index_counterexample:
  "''Placed'' \<notin> set (steps (getStatusInfo ''Placed'' DELIVERY)) \<and>
   currentIndex (getStatusInfo ''Placed'' DELIVERY) \<noteq> 0 \<and>
   real_of_int (currentIndex (getStatusInfo ''Placed'' DELIVERY)) /
     real_of_int (int (length (steps (getStatusInfo ''Placed'' DELIVERY))) - 1) \<noteq> 0 \<and>
   progress (getStatusInfo ''Placed'' DELIVERY) \<noteq> 0"
  by (simp add: getStatusInfo_def Let_def deliverySteps_def)

section \<open>Status progression\<close>

lemma step_pending:
  "eligible od \<Longrightarrow> status od = ''Pending'' \<Longrightarrow>
   simulatorStep od = od\<lparr>status := ''Preparing''\<rparr>"
  by (auto simp add: simulatorStep_def eligible_def)

lemma step_preparing:
  "eligible od \<Longrightarrow> status od = ''Preparing'' \<Longrightarrow>
   simulatorStep od = od\<lparr>status := (if mode od = DELIVERY then ''On the way'' else ''Ready'')\<rparr>"
  by (auto simp add: simulatorStep_def eligible_def)

lemma step_on_the_way:
  "eligible od \<Longrightarrow> status od = ''On the way'' \<Longrightarrow>
   simulatorStep od = od\<lparr>status := ''Delivered''\<rparr>"
  by (auto simp add: simulatorStep_def eligible_def)

lemma step_ready:
  "eligible od \<Longrightarrow> status od = ''Ready'' \<Longrightarrow>
   simulatorStep od = od\<lparr>status := ''Picked Up''\<rparr>"
  by (auto simp add: simulatorStep_def eligible_def)

lemma eligible_status: "eligible (od\<lparr>status := s\<rparr>) = eligible od"
  by (simp add: eligible_def)

lemma simulatorStep_trace:
  assumes "eligible od" and "status od = ''Pending''"
  shows "map (\<lambda>k. status ((simulatorStep ^^ k) od)) [0, 1, 2, 3] =
     steps (getStatusInfo ''Pending'' (mode od))"
proof -
  let ?s2 = "if mode od = DELIVERY then ''On the way'' else ''Ready''"
  have 1: "simulatorStep od = od\<lparr>status := ''Preparing''\<rparr>"
    using assms by (rule step_pending)
  have 2: "simulatorStep (od\<lparr>status := ''Preparing''\<rparr>) = od\<lparr>status := ?s2\<rparr>"
    using assms(1) by (simp add: step_preparing eligible_status)
  have 3: "simulatorStep (od\<lparr>status := ?s2\<rparr>) =
           od\<lparr>status := (if mode od = DELIVERY then ''Delivered'' else ''Picked Up'')\<rparr>"
    using assms(1) by (simp add: step_on_the_way step_ready eligible_status)
  have "(simulatorStep ^^ 1) od = od\<lparr>status := ''Preparing''\<rparr>"
    by (simp add: 1)
  moreover have "(simulatorStep ^^ 2) od = od\<lparr>status := ?s2\<rparr>"
    by (simp add: numeral_2_eq_2 1 2)
  moreover have "(simulatorStep ^^ 3) od =
      od\<lparr>status := (if mode od = DELIVERY then ''Delivered'' else ''Picked Up'')\<rparr>"
    by (simp add: numeral_3_eq_3 1 2 3)
  ultimately show ?thesis
    using assms(2)
    by (cases "mode od") (simp_all add: steps_getStatusInfo deliverySteps_def pickupSteps_def)
qed

lemma simulatorStep_terminal:
  "status od = ''Delivered'' \<or> status od = ''Picked Up'' \<Longrightarrow> (simulatorStep ^^ n) od = od"
  by (induction n) (auto simp add: simulatorStep_def)

lemma simulatorStep_trace_all:
  assumes "eligible od" and "status od = ''Pending''"
  shows "status ((simulatorStep ^^ k) od) = steps (getStatusInfo ''Pending'' (mode od)) ! min k 3"
proof -
  have tr: "map (\<lambda>k. status ((simulatorStep ^^ k) od)) [0, 1, 2, 3] =
            steps (getStatusInfo ''Pending'' (mode od))"
    using assms by (rule simulatorStep_trace)
  have small: "status ((simulatorStep ^^ j) od) = steps (getStatusInfo ''Pending'' (mode od)) ! j"
    if "j \<le> 3" for j
  proof -
    have "j = 0 \<or> j = 1 \<or> j = 2 \<or> j = 3" using that by arith
    moreover have "status ((simulatorStep ^^ 0) od) = steps (getStatusInfo ''Pending'' (mode od)) ! 0"
      using tr by (metis list.inject list.simps(9) nth_Cons_0)
    moreover have "status ((simulatorStep ^^ 1) od) = steps (getStatusInfo ''Pending'' (mode od)) ! 1"
      using arg_cong [OF tr, of "\<lambda>xs. xs ! 1"] by simp
    moreover have "status ((simulatorStep ^^ 2) od) = steps (getStatusInfo ''Pending'' (mode od)) ! 2"
      using arg_cong [OF tr, of "\<lambda>xs. xs ! 2"] by simp
    moreover have "status ((simulatorStep ^^ 3) od) = steps (getStatusInfo ''Pending'' (mode od)) ! 3"
      using arg_cong [OF tr, of "\<lambda>xs. xs ! 3"] by simp
    ultimately show ?thesis by blast
  qed
  show ?thesis
  proof (cases "k \<le> 3")
    case True
    then show ?thesis by (simp add: small min_def)
  next
    case False
    then have k: "k = (k - 3) + 3" by simp
    have last3: "status ((simulatorStep ^^ 3) od) = steps (getStatusInfo ''Pending'' (mode od)) ! 3"
      by (rule small) simp
    have "status ((simulatorStep ^^ 3) od) = ''Delivered'' \<or>
          status ((simulatorStep ^^ 3) od) = ''Picked Up''"
      unfolding last3 by (simp add: steps_getStatusInfo deliverySteps_def pickupSteps_def)
    then have "(simulatorStep ^^ (k - 3)) ((simulatorStep ^^ 3) od) = (simulatorStep ^^ 3) od"
      by (rule simulatorStep_terminal)
    then have "(simulatorStep ^^ ((k - 3) + 3)) od = (simulatorStep ^^ 3) od"
      by (simp only: funpow_add o_apply)
    then have "(simulatorStep ^^ k) od = (simulatorStep ^^ 3) od"
      using k by simp
    then show ?thesis using last3 False by (simp add: min_def)
  qed
qed

lemma simulatorStep_successor:
  "status (simulatorStep od) = status od \<or>
   (status od, status (simulatorStep od)) \<in>
     set (successors deliverySteps) \<union> set (successors pickupSteps)"
  by (simp add: simulatorStep_def successors_def deliverySteps_def pickupSteps_def)

lemma statusButtons_chain:
  "s' \<in> set (statusButtons s) \<longleftrightarrow>
   (s, s') \<in> set (successors [''Placed'', ''Accepted'', ''Preparing'', ''Ready'', ''Picked Up''])
   \<or> (s = ''Placed'' \<and> s' = ''Rejected'')"
  by (auto simp add: statusButtons_def successors_def)

lemma statusButtons_range:
  "set (statusButtons s) \<subseteq> {''Rejected'', ''Accepted'', ''Preparing'', ''Ready'', ''Picked Up''}"
  by (auto simp add: statusButtons_def)

lemma roundtrip_values:
  "mapDbStatusToAppStatus (dbStatus ''Rejected'') = ''Rejected''"
  "mapDbStatusToAppStatus (dbStatus ''Accepted'') = ''Accepted''"
  "mapDbStatusToAppStatus (dbStatus ''Preparing'') = ''Preparing''"
  "mapDbStatusToAppStatus (dbStatus ''Ready'') = ''Ready''"
  "mapDbStatusToAppStatus (dbStatus ''Picked Up'') = ''Picked Up''"
  by (simp_all add: dbStatus_def mapDbStatusToAppStatus_def)

lemma statusButtons_roundtrip:
  "s' \<in> set (statusButtons s) \<Longrightarrow> mapDbStatusToAppStatus (dbStatus s') = s'"
  using statusButtons_range [of s] roundtrip_values by blast

lemma handleOrderStatus_demo_nth:
  "userId st = Some ''demo-user'' \<Longrightarrow> i < length (store_orders st) \<Longrightarrow>
   store_orders (handleOrderStatus st oid s' w q p) ! i =
     (if order_id (store_orders st ! i) = oid then (store_orders st ! i)\<lparr>status := s'\<rparr>
      else store_orders st ! i)"
  by (simp add: handleOrderStatus_def)

text \<open>
  Claim C1, amended. Under the demo-mode simulator an order that starts in \<open>Pending\<close> and
  is not scheduled-and-unpaid shows, after \<open>k\<close> ticks, the step at position \<open>min k 3\<close> of the
  four-step list of its mode that the progress indicator uses (delivery: Pending,
  Preparing, On the way, Delivered; pickup: Pending, Preparing, Ready, Picked Up): one step
  per tick, none skipped or repeated, the last one kept for ever, and \<open>Accepted\<close> never
  entered. Whatever the status of an order, one tick leaves it or moves it to the next
  entry of one of these two lists. The status buttons of the store owner offer, in either
  mode, exactly the next entry of Placed, Accepted, Preparing, Ready, Picked Up, and
  \<open>Rejected\<close> from \<open>Placed\<close>; the status a button passes is the one the order then shows,
  set directly for the demo user, and otherwise written as a database status that reads
  back as the same status.
\<close>

theorem status_progression_as_coded:
  "(i < length (orders st) \<and> eligible (orders st ! i) \<and> status (orders st ! i) = ''Pending'' \<longrightarrow>
      status (orders (simulator (Some ''demo-user'') k st) ! i) =
        steps (getStatusInfo ''Pending'' (mode (orders st ! i))) ! min k 3) \<and>
   (i < length (orders st) \<longrightarrow>
      status (orders (simulatorTick st) ! i) = status (orders st ! i) \<or>
      (status (orders st ! i), status (orders (simulatorTick st) ! i)) \<in>
        set (successors deliverySteps) \<union> set (successors pickupSteps)) \<and>
   (s' \<in> set (statusButtons s) \<longleftrightarrow>
      (s, s') \<in> set (successors [''Placed'', ''Accepted'', ''Preparing'', ''Ready'', ''Picked Up''])
      \<or> (s = ''Placed'' \<and> s' = ''Rejected'')) \<and>
   (s' \<in> set (statusButtons s) \<longrightarrow> mapDbStatusToAppStatus (dbStatus s') = s') \<and>
   (userId sst = Some ''demo-user'' \<and> j < length (store_orders sst) \<and>
    order_id (store_orders sst ! j) = oid \<longrightarrow>
      status (store_orders (handleOrderStatus sst oid s' w q p) ! j) = s')"
proof (intro conjI impI)
  assume "i < length (orders st) \<and> eligible (orders st ! i) \<and> status (orders st ! i) = ''Pending''"
  then show "status (orders (simulator (Some ''demo-user'') k st) ! i) =
             steps (getStatusInfo ''Pending'' (mode (orders st ! i))) ! min k 3"
    by (simp add: simulator_def simulatorStep_pow_nth simulatorStep_trace_all)
next
  assume "i < length (orders st)"
  then show "status (orders (simulatorTick st) ! i) = status (orders st ! i) \<or>
      (status (orders st ! i), status (orders (simulatorTick st) ! i)) \<in>
        set (successors deliverySteps) \<union> set (successors pickupSteps)"
    using simulatorStep_successor [of "orders st ! i"] by (simp add: orders_simulatorTick)
next
  show "s' \<in> set (statusButtons s) \<longleftrightarrow>
      (s, s') \<in> set (successors [''Placed'', ''Accepted'', ''Preparing'', ''Ready'', ''Picked Up''])
      \<or> (s = ''Placed'' \<and> s' = ''Rejected'')"
    by (rule statusButtons_chain)
next
  assume "s' \<in> set (statusButtons s)"
  then show "mapDbStatusToAppStatus (dbStatus s') = s'"
    by (rule statusButtons_roundtrip)
next
  assume "userId sst = Some ''demo-user'' \<and> j < length (store_orders sst) \<and>
          order_id (store_orders sst ! j) = oid"
  then show "status (store_orders (handleOrderStatus sst oid s' w q p) ! j) = s'"
    by (simp add: handleOrderStatus_demo_nth)
qed

text \<open>
  The theorem at a pickup order in \<open>Pending\<close> after five ticks, and at the \<open>Accept\<close> button
  pressed on the mock order of the demo store.
\<close>

theorem status_progression_as_coded_witness:
  "status (orders (simulator (Some ''demo-user'') 5
       \<lparr>orders = [sampleOrder ''Pending'' PICKUP INSTANT PAID], grocesphere_orders = None\<rparr>) ! 0)
     = ''Picked Up'' \<and>
   ''Accepted'' \<in> set (statusButtons ''Placed'') \<and>
   mapDbStatusToAppStatus (dbStatus ''Accepted'') = ''Accepted'' \<and>
   status (store_orders (handleOrderStatus sampleStoreState ''demo-ord-1'' ''Accepted'' None
       Throws (\<lambda>ids. Throws)) ! 0) = ''Accepted''"
  using status_progression_as_coded
    [of 0 "\<lparr>orders = [sampleOrder ''Pending'' PICKUP INSTANT PAID], grocesphere_orders = None\<rparr>"
        5 "''Accepted''" "''Placed''" sampleStoreState 0 "''demo-ord-1''" None Throws
        "\<lambda>ids. Throws"]
  by (simp add: sampleOrder_def sampleStoreState_def demoOrders_def eligible_def
      steps_getStatusInfo pickupSteps_def successors_def)

text \<open>
  Claim C1 as stated fails on both paths. One tick of the simulator takes a delivery order
  from \<open>Pending\<close> to \<open>Preparing\<close>, which is the successor neither of \<open>Pending\<close> nor of
  \<open>Placed\<close> in the progression of section 4.2 (\<open>Accepted\<close> is skipped). For an order in
  \<open>Preparing\<close> the store owner is offered \<open>Ready\<close>, which is not the delivery successor of
  \<open>Preparing\<close>.
\<close>

theorem status_progression_counterexample:
  "status (orders (simulatorTick
       \<lparr>orders = [sampleOrder ''Pending'' DELIVERY INSTANT PAID], grocesphere_orders = None\<rparr>) ! 0)
     = ''Preparing'' \<and>
   \<not> spec_follows DELIVERY ''Pending'' ''Preparing'' \<and>
   \<not> spec_follows DELIVERY ''Placed'' ''Preparing'' \<and>
   ''Ready'' \<in> set (statusButtons ''Preparing'') \<and>
   \<not> spec_follows DELIVERY ''Preparing'' ''Ready''"
  by (simp add: orders_simulatorTick simulatorStep_def sampleOrder_def spec_follows_def
      spec_progression_def successors_def statusButtons_def)

section \<open>Incoming orders of the store\<close>

lemma rowToOrder_paid_instant:
  "paymentStatus (rowToOrder m row) = PAID \<and> deliveryType (rowToOrder m row) = INSTANT"
  by (simp add: rowToOrder_def)

lemma getIncomingOrders_shape:
  "getIncomingOrders q p = [] \<or> (\<exists>m rows. getIncomingOrders q p = map (rowToOrder m) rows)"
  by (auto simp add: getIncomingOrders_def split: response.splits option.splits)

lemma getIncomingOrders_all_paid_instant:
  "od \<in> set (getIncomingOrders q p) \<Longrightarrow> paymentStatus od = PAID \<and> deliveryType od = INSTANT"
  using getIncomingOrders_shape [of q p] rowToOrder_paid_instant by auto

lemma paidInstant_getIncomingOrders: "paidInstant (getIncomingOrders q p)"
  using getIncomingOrders_all_paid_instant by (auto simp add: paidInstant_def)

lemma paidInstant_demoOrders: "paidInstant (demoOrders mockItems now)"
  by (simp add: paidInstant_def demoOrders_def)

lemma paidInstant_storeEvent:
  "paidInstant (store_orders st) \<Longrightarrow> paidInstant (store_orders (storeEvent ev st))"
proof (cases ev)
  case (DataSync loaded mockItems now q p)
  assume "paidInstant (store_orders st)"
  then show ?thesis
    by (simp add: DataSync dataSync_def paidInstant_getIncomingOrders paidInstant_demoOrders
        split: option.splits)
next
  case (OrderChange q p)
  assume "paidInstant (store_orders st)"
  then show ?thesis
    by (simp add: OrderChange orderSub_def paidInstant_getIncomingOrders split: option.splits)
next
  case (StatusClick orderId newStatus writeError q p)
  assume inv: "paidInstant (store_orders st)"
  have "paidInstant (map (\<lambda>od. if order_id od = orderId then od\<lparr>status := newStatus\<rparr> else od)
          (store_orders st))"
    using inv by (auto simp add: paidInstant_def)
  then show ?thesis
    using inv
    by (simp add: StatusClick handleOrderStatus_def paidInstant_getIncomingOrders
        split: option.splits)
qed

lemma paidInstant_storeRun:
  "paidInstant (store_orders st) \<Longrightarrow> paidInstant (store_orders (storeRun events st))"
  unfolding storeRun_def
  by (induction events arbitrary: st) (simp_all add: paidInstant_storeEvent)

text \<open>
  Claim C9, amended. Every order returned by the incoming-orders fetch has payment status
  \<open>PAID\<close> and delivery sub-type \<open>INSTANT\<close>, whatever the rows of the backend hold. The fetch
  never raises: it returns the empty list when the orders query throws or reports an
  error and when the profiles query throws; an error merely reported by the profiles
  query is ignored, and the orders are returned without profile data (customer name
  \<open>Guest\<close>). Consequently the order list of the store-owner view, starting empty, never
  holds a pending-payment or scheduled order, whatever is loaded, notified or clicked.
\<close>

theorem getIncomingOrders_paid_instant:
  "(\<forall>od \<in> set (getIncomingOrders q p). paymentStatus od = PAID \<and> deliveryType od = INSTANT) \<and>
   getIncomingOrders Throws p = [] \<and>
   getIncomingOrders (Response d (Some e)) p = [] \<and>
   (customerIds rows \<noteq> [] \<and> p' (customerIds rows) = Throws \<longrightarrow>
      getIncomingOrders (Response (Some rows) None) p' = []) \<and>
   (customerIds rows \<noteq> [] \<and> p' (customerIds rows) = Response d' (Some e') \<longrightarrow>
      getIncomingOrders (Response (Some rows) None) p' = map (rowToOrder Map.empty) rows) \<and>
   (store_orders st = [] \<longrightarrow>
      (\<forall>od \<in> set (store_orders (storeRun events st)).
         paymentStatus od = PAID \<and> deliveryType od = INSTANT))"
proof -
  have a: "\<forall>od \<in> set (getIncomingOrders q p). paymentStatus od = PAID \<and> deliveryType od = INSTANT"
    using getIncomingOrders_all_paid_instant by blast
  have b: "getIncomingOrders Throws p = []"
    by (simp add: getIncomingOrders_def)
  have c: "getIncomingOrders (Response d (Some e)) p = []"
    by (simp add: getIncomingOrders_def)
  have d: "getIncomingOrders (Response (Some rows) None) p' = []"
    if "customerIds rows \<noteq> [] \<and> p' (customerIds rows) = Throws"
    using that by (simp add: getIncomingOrders_def)
  have e: "getIncomingOrders (Response (Some rows) None) p' = map (rowToOrder Map.empty) rows"
    if "customerIds rows \<noteq> [] \<and> p' (customerIds rows) = Response d' (Some e')"
    using that by (auto simp add: getIncomingOrders_def split: option.splits)
  have f: "\<forall>od \<in> set (store_orders (storeRun events st)).
             paymentStatus od = PAID \<and> deliveryType od = INSTANT"
    if "store_orders st = []"
  proof -
    have "paidInstant (store_orders st)"
      using that by (simp add: paidInstant_def)
    then have "paidInstant (store_orders (storeRun events st))"
      by (rule paidInstant_storeRun)
    then show ?thesis by (simp add: paidInstant_def)
  qed
  show ?thesis
    using a b c d e f by blast
qed

text \<open>
  The theorem at a backend holding one row marked unpaid and scheduled in its further
  columns: fetched with a working, a throwing and a failing profiles query, and shown in
  the console of a registered owner after a change notification and a click on \<open>Accept\<close>.
\<close>

theorem getIncomingOrders_paid_instant_witness:
  "paymentStatus (hd (getIncomingOrders (Response (Some [sampleRow]) None)
      (\<lambda>ids. Response (Some []) None))) = PAID \<and>
   deliveryType (hd (getIncomingOrders (Response (Some [sampleRow]) None)
      (\<lambda>ids. Response (Some []) None))) = INSTANT \<and>
   getIncomingOrders (Response (Some [sampleRow]) None) (\<lambda>ids. Throws) = [] \<and>
   getIncomingOrders (Response (Some [sampleRow]) None) (\<lambda>ids. Response None (Some ''timeout''))
     = map (rowToOrder Map.empty) [sampleRow] \<and>
   paymentStatus (hd (store_orders (storeRun
      [OrderChange (Response (Some [sampleRow]) None) (\<lambda>ids. Response (Some []) None),
       StatusClick ''ord-1'' ''Accepted'' None (Response (Some [sampleRow]) None)
         (\<lambda>ids. Response (Some []) None)]
      sampleLiveState))) = PAID \<and>
   deliveryType (hd (store_orders (storeRun
      [OrderChange (Response (Some [sampleRow]) None) (\<lambda>ids. Response (Some []) None),
       StatusClick ''ord-1'' ''Accepted'' None (Response (Some [sampleRow]) None)
         (\<lambda>ids. Response (Some []) None)]
      sampleLiveState))) = INSTANT"
proof -
  let ?q = "Response (Some [sampleRow]) None"
  let ?p = "\<lambda>ids :: string list. Response (Some ([] :: ProfileRow list)) None"
  let ?evs = "[OrderChange ?q ?p, StatusClick ''ord-1'' ''Accepted'' None ?q ?p]"
  have ids: "customerIds [sampleRow] \<noteq> []"
    by (simp add: customerIds_def sampleRow_def)
  have fetched: "getIncomingOrders ?q ?p \<noteq> []"
    using ids by (simp add: getIncomingOrders_def)
  have empty: "store_orders sampleLiveState = []"
    by (simp add: sampleLiveState_def)
  have shown: "store_orders (storeRun ?evs sampleLiveState) \<noteq> []"
    using fetched
    by (simp add: storeRun_def orderSub_def handleOrderStatus_def sampleLiveState_def
        sampleStoreState_def)
  from getIncomingOrders_paid_instant
    [of ?q ?p "Some []" "''timeout''" "[sampleRow]" "\<lambda>ids. Throws" "Some []" "''timeout''"
        sampleLiveState ?evs]
  have 1: "\<forall>od \<in> set (getIncomingOrders ?q ?p). paymentStatus od = PAID \<and> deliveryType od = INSTANT"
    and 2: "getIncomingOrders ?q (\<lambda>ids. Throws) = []"
    and 3: "\<forall>od \<in> set (store_orders (storeRun ?evs sampleLiveState)).
              paymentStatus od = PAID \<and> deliveryType od = INSTANT"
    using ids empty by simp_all
  from getIncomingOrders_paid_instant
    [of ?q ?p "Some []" "''timeout''" "[sampleRow]" "\<lambda>ids. Response None (Some ''timeout'')"
        None "''timeout''" sampleLiveState ?evs]
  have 4: "getIncomingOrders ?q (\<lambda>ids. Response None (Some ''timeout''))
           = map (rowToOrder Map.empty) [sampleRow]"
    using ids by simp
  show ?thesis
    using 1 2 3 4 hd_in_set [OF fetched] hd_in_set [OF shown] by simp
qed

text \<open>
  Claim C9 as stated fails in its middle part: when the orders query succeeds and the
  profiles query reports an error, the fetch does not return the empty list but the
  orders, with the customer name \<open>Guest\<close>.
\<close>

theorem profiles_error_not_empty_counterexample:
  "getIncomingOrders (Response (Some [sampleRow]) None) failingProfiles \<noteq> [] \<and>
   map customerName (getIncomingOrders (Response (Some [sampleRow]) None) failingProfiles)
     = [Some ''Guest'']"
  by (simp add: getIncomingOrders_def customerIds_def sampleRow_def rowToOrder_def
      lookupProfile_def orString_def failingProfiles_def)

section \<open>Live updates\<close>

lemma orders_liveUpdate:
  "uid \<noteq> [] \<Longrightarrow> uid \<noteq> ''demo-user'' \<Longrightarrow>
   orders (liveUpdate (Some uid) ev st) = onUserOrderUpdate ev (orders st)"
  by (simp add: liveUpdate_def)

lemma store_orders_orderSub:
  "myStore st \<noteq> None \<Longrightarrow> userId st \<noteq> Some ''demo-user'' \<Longrightarrow>
   store_orders (orderSub st q p) = getIncomingOrders q p"
  by (auto simp add: orderSub_def split: option.splits)

text \<open>
  Claim C4, amended. In live mode, on every change notification the store-owner incoming
  orders view fetches the full current order set of its store again and replaces its
  local list wholesale: the new list is the fetched one, whatever the list was before. The
  customer-side order view does not fetch: it keeps its local list, position by position,
  and overwrites only the status field of the orders whose id is that of the changed row,
  with the status mapped from the row.
\<close>

theorem live_update_store_refetch_customer_patch:
  "(myStore sst \<noteq> None \<and> userId sst \<noteq> Some ''demo-user'' \<longrightarrow>
      store_orders (orderSub (sst\<lparr>store_orders := before\<rparr>) q p) = getIncomingOrders q p) \<and>
   (uid \<noteq> [] \<and> uid \<noteq> ''demo-user'' \<longrightarrow>
      length (orders (liveUpdate (Some uid) ev st)) = length (orders st) \<and>
      (\<forall>i < length (orders st).
         orders (liveUpdate (Some uid) ev st) ! i =
           (if order_id (orders st ! i) = row_id ev
            then (orders st ! i)\<lparr>status := appStatus (row_status ev)\<rparr>
            else orders st ! i)))"
proof -
  have a: "store_orders (orderSub (sst\<lparr>store_orders := before\<rparr>) q p) = getIncomingOrders q p"
    if "myStore sst \<noteq> None \<and> userId sst \<noteq> Some ''demo-user''"
    using that store_orders_orderSub [of "sst\<lparr>store_orders := before\<rparr>" q p] by simp
  have b: "length (orders (liveUpdate (Some uid) ev st)) = length (orders st) \<and>
      (\<forall>i < length (orders st).
         orders (liveUpdate (Some uid) ev st) ! i =
           (if order_id (orders st ! i) = row_id ev
            then (orders st ! i)\<lparr>status := appStatus (row_status ev)\<rparr>
            else orders st ! i))"
    if "uid \<noteq> [] \<and> uid \<noteq> ''demo-user''"
    using that by (simp add: orders_liveUpdate onUserOrderUpdate_def)
  show ?thesis
    using a b by blast
qed

text \<open>
  The theorem at the console of a registered owner, whose list is replaced by the fetched
  row, and at a registered customer holding one order, which is patched in place.
\<close>

theorem live_update_store_refetch_customer_patch_witness:
  "store_orders (orderSub (sampleLiveState\<lparr>store_orders := demoOrders [] ''now''\<rparr>)
      (Response (Some [sampleRow]) None) (\<lambda>ids. Response (Some []) None))
     = getIncomingOrders (Response (Some [sampleRow]) None) (\<lambda>ids. Response (Some []) None) \<and>
   length (orders (liveUpdate (Some ''user-1'') (sampleRow\<lparr>row_status := ''packing''\<rparr>)
      \<lparr>orders = [sampleOrder ''Pending'' DELIVERY INSTANT PAID], grocesphere_orders = None\<rparr>)) = 1 \<and>
   orders (liveUpdate (Some ''user-1'') (sampleRow\<lparr>row_status := ''packing''\<rparr>)
      \<lparr>orders = [sampleOrder ''Pending'' DELIVERY INSTANT PAID], grocesphere_orders = None\<rparr>) ! 0
     = sampleOrder ''Preparing'' DELIVERY INSTANT PAID"
  using live_update_store_refetch_customer_patch
    [of sampleLiveState "demoOrders [] ''now''" "Response (Some [sampleRow]) None"
        "\<lambda>ids. Response (Some []) None" "''user-1''" "sampleRow\<lparr>row_status := ''packing''\<rparr>"
        "\<lparr>orders = [sampleOrder ''Pending'' DELIVERY INSTANT PAID], grocesphere_orders = None\<rparr>"]
  by (simp add: sampleLiveState_def sampleStoreState_def sampleOrder_def sampleRow_def
      appStatus_def)

text \<open>
  Claim C4 as stated fails for the customer-side view. On a change notification for a
  row, a customer holding no order still holds none, so the changed order is not fetched; a
  customer holding the order gets a list that depends on the local one; and in it the
  order keeps its local total although the row carries another amount, so the list is
  merged field by field rather than replaced.
\<close>

theorem customer_live_update_counterexample:
  "orders (liveUpdate (Some ''user-1'') (sampleRow\<lparr>row_status := ''packing''\<rparr>)
      \<lparr>orders = [], grocesphere_orders = None\<rparr>) = [] \<and>
   orders (liveUpdate (Some ''user-1'') (sampleRow\<lparr>row_status := ''packing''\<rparr>)
      \<lparr>orders = [sampleOrder ''Pending'' DELIVERY INSTANT PAID], grocesphere_orders = None\<rparr>)
     = [sampleOrder ''Preparing'' DELIVERY INSTANT PAID] \<and>
   total (sampleOrder ''Preparing'' DELIVERY INSTANT PAID) = 0 \<and>
   total_amount (sampleRow\<lparr>row_status := ''packing''\<rparr>) = 120"
  by (simp add: liveUpdate_def onUserOrderUpdate_def sampleOrder_def sampleRow_def appStatus_def)

section \<open>Store profile update\<close>

lemma dbUpdates_falsy:
  "u_name updates = None \<or> u_name updates = Some [] \<Longrightarrow> db_name (dbUpdates updates) = None"
  "u_address updates = None \<or> u_address updates = Some [] \<Longrightarrow> db_address (dbUpdates updates) = None"
  "u_upiId updates = None \<or> u_upiId updates = Some [] \<Longrightarrow> db_upi_id (dbUpdates updates) = None"
  "u_lat updates = None \<or> u_lat updates = Some 0 \<Longrightarrow> db_lat (dbUpdates updates) = None"
  "u_lng updates = None \<or> u_lng updates = Some 0 \<Longrightarrow> db_lng (dbUpdates updates) = None"
  by (auto simp add: dbUpdates_def truthyString_def truthyNumber_def)

lemma applyDbUpdates_frame:
  "s_id (applyDbUpdates u r) = s_id r"
  "s_rating (applyDbUpdates u r) = s_rating r"
  "s_is_open (applyDbUpdates u r) = s_is_open r"
  "s_type (applyDbUpdates u r) = s_type r"
  "s_owner_id (applyDbUpdates u r) = s_owner_id r"
  "db_name u = None \<Longrightarrow> s_name (applyDbUpdates u r) = s_name r"
  "db_address u = None \<Longrightarrow> s_address (applyDbUpdates u r) = s_address r"
  "db_upi_id u = None \<Longrightarrow> s_upi_id (applyDbUpdates u r) = s_upi_id r"
  "db_lat u = None \<Longrightarrow> s_lat (applyDbUpdates u r) = s_lat r"
  "db_lng u = None \<Longrightarrow> s_lng (applyDbUpdates u r) = s_lng r"
  by (simp_all add: applyDbUpdates_def)

text \<open>
  Claim C10. The store-profile update drops every falsy field: an empty name, address or
  UPI id and a latitude or longitude equal to zero are not put into the patch, and neither
  is an absent field. When the update succeeds, every row of the table keeps, for each
  such field, the value its column had before; the columns that the function never
  writes (id, rating, open flag, type, owner) keep their values in any case.
\<close>

theorem updateStoreProfile_drops_falsy:
  assumes "updateStoreProfile sid updates writeError tbl = Inr tbl'"
  shows "length tbl' = length tbl \<and>
         (\<forall>i < length tbl.
            (u_name updates = None \<or> u_name updates = Some [] \<longrightarrow>
               db_name (dbUpdates updates) = None \<and> s_name (tbl' ! i) = s_name (tbl ! i)) \<and>
            (u_address updates = None \<or> u_address updates = Some [] \<longrightarrow>
               db_address (dbUpdates updates) = None \<and> s_address (tbl' ! i) = s_address (tbl ! i)) \<and>
            (u_upiId updates = None \<or> u_upiId updates = Some [] \<longrightarrow>
               db_upi_id (dbUpdates updates) = None \<and> s_upi_id (tbl' ! i) = s_upi_id (tbl ! i)) \<and>
            (u_lat updates = None \<or> u_lat updates = Some 0 \<longrightarrow>
               db_lat (dbUpdates updates) = None \<and> s_lat (tbl' ! i) = s_lat (tbl ! i)) \<and>
            (u_lng updates = None \<or> u_lng updates = Some 0 \<longrightarrow>
               db_lng (dbUpdates updates) = None \<and> s_lng (tbl' ! i) = s_lng (tbl ! i)) \<and>
            s_id (tbl' ! i) = s_id (tbl ! i) \<and>
            s_rating (tbl' ! i) = s_rating (tbl ! i) \<and>
            s_is_open (tbl' ! i) = s_is_open (tbl ! i) \<and>
            s_type (tbl' ! i) = s_type (tbl ! i) \<and>
            s_owner_id (tbl' ! i) = s_owner_id (tbl ! i))"
proof -
  let ?f = "\<lambda>r. if s_id r = sid then applyDbUpdates (dbUpdates updates) r else r"
  have tbl': "tbl' = map ?f tbl"
    using assms by (simp add: updateStoreProfile_def split: option.splits)
  have row: "tbl' ! i = ?f (tbl ! i)" if "i < length tbl" for i
    using that by (simp add: tbl')
  show ?thesis
  proof (intro conjI allI impI)
    show "length tbl' = length tbl" by (simp add: tbl')
  qed (simp_all add: row dbUpdates_falsy applyDbUpdates_frame)
qed

text \<open>
  The theorem at a table of one store and a form with an empty name, a new address, a
  zero latitude and a new longitude: the name and the latitude stay, the address and the
  longitude are written.
\<close>

theorem updateStoreProfile_drops_falsy_witness:
  "updateStoreProfile ''store-1'' sampleUpdates None [sampleStoreRow] =
     Inr [sampleStoreRow\<lparr>s_address := ''New Road 2'', s_lng := 78\<rparr>] \<and>
   s_name (sampleStoreRow\<lparr>s_address := ''New Road 2'', s_lng := 78\<rparr>) = s_name sampleStoreRow \<and>
   s_lat (sampleStoreRow\<lparr>s_address := ''New Road 2'', s_lng := 78\<rparr>) = s_lat sampleStoreRow \<and>
   s_upi_id (sampleStoreRow\<lparr>s_address := ''New Road 2'', s_lng := 78\<rparr>) = s_upi_id sampleStoreRow \<and>
   s_rating (sampleStoreRow\<lparr>s_address := ''New Road 2'', s_lng := 78\<rparr>) = s_rating sampleStoreRow \<and>
   s_is_open (sampleStoreRow\<lparr>s_address := ''New Road 2'', s_lng := 78\<rparr>) = s_is_open sampleStoreRow"
proof -
  have run: "updateStoreProfile ''store-1'' sampleUpdates None [sampleStoreRow] =
             Inr [sampleStoreRow\<lparr>s_address := ''New Road 2'', s_lng := 78\<rparr>]"
    by (simp add: updateStoreProfile_def dbUpdates_def applyDbUpdates_def truthyString_def
        truthyNumber_def sampleUpdates_def sampleStoreRow_def)
  have hyp: "u_name sampleUpdates = Some []" "u_lat sampleUpdates = Some 0"
    "u_upiId sampleUpdates = None"
    by (simp_all add: sampleUpdates_def)
  from updateStoreProfile_drops_falsy [OF run] hyp show ?thesis
    using run by simp
qed

section \<open>Inventory: variants and the aggregate stock\<close>

lemma foldl_offered:
  "foldl (\<lambda>sum b. sum + (if b_inStock b then b_stock b else 0)) a bs =
   a + sum_list (map b_stock (filter b_inStock bs))"
  by (induction bs arbitrary: a) simp_all

lemma newTotalStock_offered:
  "isStockField field \<Longrightarrow>
   newTotalStock product brandName field =
     spec_offeredStock (newBrandDetails product brandName field)"
  by (simp add: newTotalStock_def spec_offeredStock_def foldl_offered)

lemma inventory_handleInventoryUpdate:
  "myStore st \<noteq> None \<Longrightarrow>
   inventory (handleInventoryUpdate st product np ns nq nm nb) =
     map (\<lambda>item. if inv_id item = inv_id product
                  then item\<lparr>mrp := Some (case nm of Some m \<Rightarrow> m
                                             | None \<Rightarrow> orNumber (mrp product) (inv_price product)),
                            inStock := ns, stock := nq,
                            storePrice := (case np of Some p \<Rightarrow> p | None \<Rightarrow> storePrice product),
                            isActive := True,
                            brandDetails := Some (case nb of Some d \<Rightarrow> d
                                                  | None \<Rightarrow> orEmpty (brandDetails product))\<rparr>
                  else item) (inventory st)"
  by (auto simp add: handleInventoryUpdate_def Let_def split: option.splits)

lemma inventory_handleInventoryUpdate_no_store:
  "myStore st = None \<Longrightarrow> handleInventoryUpdate st product np ns nq nm nb = st"
  by (simp add: handleInventoryUpdate_def)

lemma brand_update_item:
  assumes "myStore st \<noteq> None"
    and "item' \<in> set (inventory (handleBrandInventoryUpdate st product brandName field))"
    and "inv_id item' = inv_id product"
  shows "stock item' = newTotalStock product brandName field \<and>
         brandDetails item' = Some (newBrandDetails product brandName field)"
proof -
  from assms(2) obtain item where "item \<in> set (inventory st)"
    and item': "item' =
      (if inv_id item = inv_id product
       then item\<lparr>mrp := Some (case mrp product of Some m \<Rightarrow> m
                                | None \<Rightarrow> orNumber (mrp product) (inv_price product)),
                 inStock := inStock product, stock := newTotalStock product brandName field,
                 storePrice := storePrice product, isActive := True,
                 brandDetails := Some (newBrandDetails product brandName field)\<rparr>
       else item)"
    by (auto simp add: handleBrandInventoryUpdate_def inventory_handleInventoryUpdate [OF assms(1)])
  show ?thesis
  proof (cases "inv_id item = inv_id product")
    case True
    then show ?thesis by (simp add: item')
  next
    case False
    then show ?thesis using assms(3) by (simp add: item')
  qed
qed

lemma toggle_keeps_variants:
  assumes "item \<in> set (inventory st)" and "distinct (map inv_id (inventory st))"
  shows "map (\<lambda>it. orEmpty (brandDetails it)) (inventory (toggleInStock st item)) =
         map (\<lambda>it. orEmpty (brandDetails it)) (inventory st)"
proof (cases "myStore st")
  case None
  then show ?thesis
    by (simp add: toggleInStock_def inventory_handleInventoryUpdate_no_store)
next
  case (Some store)
  then have ms: "myStore st \<noteq> None" by simp
  have same: "it = item" if "it \<in> set (inventory st)" "inv_id it = inv_id item" for it
    using that assms by (meson distinct_map inj_onD)
  show ?thesis
    unfolding toggleInStock_def inventory_handleInventoryUpdate [OF ms]
    by (auto simp add: orEmpty_def dest: same)
qed

lemma toggle_flips:
  assumes "myStore st \<noteq> None"
    and "it' \<in> set (inventory (toggleInStock st item))" and "inv_id it' = inv_id item"
  shows "inStock it' = (\<not> inStock item) \<and> stock it' = stock item"
  using assms(2,3)
  unfolding toggleInStock_def inventory_handleInventoryUpdate [OF assms(1)]
  by auto

text \<open>
  Claim C8. For an item of the inventory of a store, after a per-variant update of a
  variant's stock or offered flag, the aggregate stock count of the item equals the sum of
  the stock counts of exactly those of its variants that are then marked offered. The
  top-level toggle of an item of the inventory (whose product ids are distinct) changes the
  offered flag of that item and leaves the variant data of every item, and the aggregate
  stock count of the toggled one, as they were.
\<close>

theorem brand_update_recomputes_stock_and_toggle_keeps_variants:
  "(myStore st \<noteq> None \<and> isStockField field \<and>
    item' \<in> set (inventory (handleBrandInventoryUpdate st product brandName field)) \<and>
    inv_id item' = inv_id product \<longrightarrow>
      stock item' = spec_offeredStock (orEmpty (brandDetails item'))) \<and>
   (item \<in> set (inventory st) \<and> distinct (map inv_id (inventory st)) \<longrightarrow>
      map (\<lambda>it. orEmpty (brandDetails it)) (inventory (toggleInStock st item)) =
        map (\<lambda>it. orEmpty (brandDetails it)) (inventory st) \<and>
      (myStore st \<noteq> None \<longrightarrow>
         (\<forall>it' \<in> set (inventory (toggleInStock st item)).
            inv_id it' = inv_id item \<longrightarrow>
              inStock it' = (\<not> inStock item) \<and> stock it' = stock item)))"
proof -
  have a: "stock item' = spec_offeredStock (orEmpty (brandDetails item'))"
    if "myStore st \<noteq> None \<and> isStockField field \<and>
        item' \<in> set (inventory (handleBrandInventoryUpdate st product brandName field)) \<and>
        inv_id item' = inv_id product"
  proof -
    have "stock item' = newTotalStock product brandName field \<and>
          brandDetails item' = Some (newBrandDetails product brandName field)"
      using that brand_update_item by blast
    then show ?thesis
      using that by (simp add: newTotalStock_offered orEmpty_def)
  qed
  have b: "map (\<lambda>it. orEmpty (brandDetails it)) (inventory (toggleInStock st item)) =
           map (\<lambda>it. orEmpty (brandDetails it)) (inventory st)"
    if "item \<in> set (inventory st) \<and> distinct (map inv_id (inventory st))"
    using that by (simp add: toggle_keeps_variants)
  have c: "\<forall>it' \<in> set (inventory (toggleInStock st item)).
             inv_id it' = inv_id item \<longrightarrow>
               inStock it' = (\<not> inStock item) \<and> stock it' = stock item"
    if "myStore st \<noteq> None"
    using that toggle_flips by blast
  show ?thesis
    using a b c by blast
qed

text \<open>
  The theorem at an item with one offered variant (five units) and one variant not offered
  (seven units): offering the second makes the aggregate twelve, and the top-level toggle
  of the item leaves both variants in place.
\<close>

theorem brand_update_recomputes_stock_and_toggle_keeps_variants_witness:
  "map stock (inventory (handleBrandInventoryUpdate sampleInventoryState sampleItem ''Nandini''
      (InStock True))) = [12] \<and>
   map (\<lambda>it. spec_offeredStock (orEmpty (brandDetails it)))
     (inventory (handleBrandInventoryUpdate sampleInventoryState sampleItem ''Nandini''
        (InStock True))) = [12] \<and>
   map (\<lambda>it. orEmpty (brandDetails it)) (inventory (toggleInStock sampleInventoryState sampleItem))
     = [orEmpty (brandDetails sampleItem)] \<and>
   map inStock (inventory (toggleInStock sampleInventoryState sampleItem)) = [False] \<and>
   map stock (inventory (toggleInStock sampleInventoryState sampleItem)) = [5]"
proof -
  let ?st' = "handleBrandInventoryUpdate sampleInventoryState sampleItem ''Nandini'' (InStock True)"
  have ms: "myStore sampleInventoryState \<noteq> None"
    by (simp add: sampleInventoryState_def sampleLiveState_def sampleStoreState_def)
  have inv: "inventory sampleInventoryState = [sampleItem]"
    by (simp add: sampleInventoryState_def)
  have upd: "inventory ?st' =
      [sampleItem\<lparr>mrp := Some 32, inStock := True, stock := 12, storePrice := 30,
         isActive := True,
         brandDetails :=
           Some [(''Amul'', \<lparr>b_price = 32, b_mrp = 33, b_stock = 5, b_inStock = True\<rparr>),
                 (''Nandini'', \<lparr>b_price = 30, b_mrp = 31, b_stock = 7, b_inStock = True\<rparr>)]\<rparr>]"
    by (simp add: handleBrandInventoryUpdate_def inventory_handleInventoryUpdate [OF ms] inv
        newTotalStock_def newBrandDetails_def brandInfo_def setField_def isStockField_def
        orEmpty_def sampleItem_def)
  have tog: "inventory (toggleInStock sampleInventoryState sampleItem) =
      [sampleItem\<lparr>mrp := Some 32, inStock := False, stock := 5, storePrice := 30,
         isActive := True, brandDetails := Some (orEmpty (brandDetails sampleItem))\<rparr>]"
    by (simp add: toggleInStock_def inventory_handleInventoryUpdate [OF ms] inv sampleItem_def)
  from brand_update_recomputes_stock_and_toggle_keeps_variants
    [of sampleInventoryState "InStock True" "hd (inventory ?st')" sampleItem "''Nandini''"
        sampleItem]
  have "spec_offeredStock (orEmpty (brandDetails (hd (inventory ?st')))) = stock (hd (inventory ?st'))"
    and "map (\<lambda>it. orEmpty (brandDetails it)) (inventory (toggleInStock sampleInventoryState sampleItem))
         = map (\<lambda>it. orEmpty (brandDetails it)) (inventory sampleInventoryState)"
    and "\<forall>it' \<in> set (inventory (toggleInStock sampleInventoryState sampleItem)).
           inv_id it' = inv_id sampleItem \<longrightarrow>
             inStock it' = (\<not> inStock sampleItem) \<and> stock it' = stock sampleItem"
    using ms by (simp_all add: inv upd isStockField_def)
  then show ?thesis
    by (simp add: upd tog inv)
qed

section \<open>Order creation\<close>

lemma foldl_total:
  "foldl (\<lambda>sum item. sum + price item * real_of_int (quantity item)) a c =
   a + (\<Sum>it\<leftarrow>c. price it * real_of_int (quantity it))"
  by (induction c arbitrary: a) simp_all

lemma totalAmount_spec_total: "totalAmount c = spec_total c"
  by (simp add: totalAmount_def spec_total_def foldl_total)

lemma newOrder_Inr:
  "newOrder user oid now st details = Inr od \<Longrightarrow>
   items od = cart st \<and> total od = spec_total (cart st) \<and> cart st \<noteq> []"
  by (auto simp add: newOrder_def totalAmount_spec_total split: list.splits)

lemma newOrder_empty: "cart st = [] \<Longrightarrow> newOrder user oid now st details = Inl TypeError"
  by (simp add: newOrder_def)

lemma handlePaymentSuccess_saved:
  assumes "handlePaymentSuccess user oid now saveError st = Inr st'"
    and "entry \<in> set (savedOrders st')"
  shows "entry \<in> set (savedOrders st) \<or>
         (items (snd entry) = cart st \<and> total (snd entry) = spec_total (cart st))"
proof (cases "pendingOrderDetails st")
  case None
  then show ?thesis using assms by (simp add: handlePaymentSuccess_def)
next
  case (Some details)
  show ?thesis
  proof (cases "newOrder user oid now st details")
    case (Inl err)
    then show ?thesis using assms Some by (simp add: handlePaymentSuccess_def)
  next
    case (Inr od)
    have od: "items od = cart st \<and> total od = spec_total (cart st)"
      using newOrder_Inr [OF Inr] by simp
    show ?thesis
      using assms Some Inr od
      by (auto simp add: handlePaymentSuccess_def saveOrder_def split: option.splits)
  qed
qed

lemma addToCart_keeps_prices:
  "map price (take (length (cart st)) (cart (addToCart st product qty brandName newPrice now))) =
   map price (cart st)"
proof (cases "selectedStore st")
  case None
  then show ?thesis by (simp add: addToCart_def)
next
  case (Some sel)
  show ?thesis
  proof (cases "findIndex (\<lambda>item. originalProductId item = p_id product \<and>
                               selectedBrand item = brandName) (cart st)")
    case None
    then show ?thesis using Some by (simp add: addToCart_def Let_def)
  next
    case (Some idx)
    have "map price ((cart st)[idx := (cart st ! idx)\<lparr>quantity := quantity (cart st ! idx) + qty\<rparr>])
          = (map price (cart st))[idx := price (cart st ! idx)]"
      by (simp add: map_update)
    also have "\<dots> = map price ((cart st)[idx := cart st ! idx])"
      by (simp only: map_update)
    also have "\<dots> = map price (cart st)"
      by simp
    finally have "map price ((cart st)[idx := (cart st ! idx)\<lparr>quantity := quantity (cart st ! idx) + qty\<rparr>])
          = map price (cart st)" .
    then show ?thesis using \<open>selectedStore st = Some sel\<close> Some
      by (simp add: addToCart_def Let_def)
  qed
qed

text \<open>
  Claim C5. The order built at creation has the cart as its items and, as its total, the
  sum over these line items of unit price times quantity; so has every order that
  \<open>handlePaymentSuccess\<close> saves. Afterwards the stored total and the line items are
  carried along unchanged: by every tick of the simulator, by the live status patch of the
  customer view, by the status action of the store owner, and by the incoming-orders
  fetch, which takes the stored amount of the row. The prices of the lines already in the
  cart are those taken when they were added: adding to the cart again and a refresh of the
  store's products leave them as they are.
\<close>

theorem order_total_is_sum_and_is_kept:
  "(newOrder user oid now st details = Inr od \<longrightarrow>
      items od = cart st \<and> total od = spec_total (items od)) \<and>
   (handlePaymentSuccess user oid now saveError st = Inr st' \<longrightarrow>
      (\<forall>entry \<in> set (savedOrders st').
         entry \<in> set (savedOrders st) \<or>
         (items (snd entry) = cart st \<and> total (snd entry) = spec_total (items (snd entry))))) \<and>
   map total (orders (simulatorTick mst)) = map total (orders mst) \<and>
   map items (orders (simulatorTick mst)) = map items (orders mst) \<and>
   map total (onUserOrderUpdate ev prev) = map total prev \<and>
   map items (onUserOrderUpdate ev prev) = map items prev \<and>
   (userId sst = Some ''demo-user'' \<longrightarrow>
      map total (store_orders (handleOrderStatus sst orderId newStatus w q p)) =
        map total (store_orders sst) \<and>
      map items (store_orders (handleOrderStatus sst orderId newStatus w q p)) =
        map items (store_orders sst)) \<and>
   total (rowToOrder m row) = total_amount row \<and>
   items (rowToOrder m row) = row_items row \<and>
   map price (take (length (cart st)) (cart (addToCart st product qty brandName newPrice now'))) =
     map price (cart st) \<and>
   cart (refreshStoreProducts st products) = cart st \<and>
   savedOrders (refreshStoreProducts st products) = savedOrders st"
proof -
  have a: "items od = cart st \<and> total od = spec_total (items od)"
    if "newOrder user oid now st details = Inr od"
    using newOrder_Inr [OF that] by simp
  have b: "\<forall>entry \<in> set (savedOrders st').
             entry \<in> set (savedOrders st) \<or>
             (items (snd entry) = cart st \<and> total (snd entry) = spec_total (items (snd entry)))"
    if "handlePaymentSuccess user oid now saveError st = Inr st'"
    using handlePaymentSuccess_saved [OF that] by fastforce
  have step: "total (simulatorStep x) = total x \<and> items (simulatorStep x) = items x" for x
    by (simp add: simulatorStep_def)
  have c: "map total (orders (simulatorTick mst)) = map total (orders mst) \<and>
           map items (orders (simulatorTick mst)) = map items (orders mst)"
    by (simp add: orders_simulatorTick step)
  have d: "map total (onUserOrderUpdate ev prev) = map total prev \<and>
           map items (onUserOrderUpdate ev prev) = map items prev"
    by (simp add: onUserOrderUpdate_def)
  have e: "map total (store_orders (handleOrderStatus sst orderId newStatus w q p)) =
             map total (store_orders sst) \<and>
           map items (store_orders (handleOrderStatus sst orderId newStatus w q p)) =
             map items (store_orders sst)"
    if "userId sst = Some ''demo-user''"
    using that by (simp add: handleOrderStatus_def)
  have f: "total (rowToOrder m row) = total_amount row \<and> items (rowToOrder m row) = row_items row"
    by (simp add: rowToOrder_def)
  have g: "cart (refreshStoreProducts st products) = cart st \<and>
           savedOrders (refreshStoreProducts st products) = savedOrders st"
    by (simp add: refreshStoreProducts_def)
  show ?thesis
    using a b c d e f g addToCart_keeps_prices [of st product qty brandName newPrice now']
    by blast
qed

text \<open>
  The theorem at a cart of two units at 50 and one unit at 20: the order built and the
  order saved have the total 120; and at the mock order of the demo store, whose total
  stays 120 when the owner accepts it.
\<close>

theorem order_total_is_sum_and_is_kept_witness:
  "(case newOrder sampleUser ''ord-1700000000002'' ''2024-01-01T00:00:00.000Z''
          sampleCustomerState sampleDetails of
      Inl err \<Rightarrow> False
    | Inr od \<Rightarrow> items od = sampleCart \<and> total od = 120) \<and>
   (case handlePaymentSuccess sampleUser ''ord-1700000000002'' ''2024-01-01T00:00:00.000Z''
          None sampleCustomerState of
      Inl err \<Rightarrow> False
    | Inr st' \<Rightarrow> map (\<lambda>entry. total (snd entry)) (savedOrders st') = [120]) \<and>
   map total (store_orders (handleOrderStatus sampleStoreState ''demo-ord-1'' ''Accepted'' None
      Throws (\<lambda>ids. Throws))) = [120]"
proof -
  let ?oid = "''ord-1700000000002''" and ?now = "''2024-01-01T00:00:00.000Z''"
  have cart: "cart sampleCustomerState = sampleCart"
    by (simp add: sampleCustomerState_def)
  have sum: "spec_total sampleCart = 120"
    by (simp add: spec_total_def sampleCart_def)
  obtain od where od: "newOrder sampleUser ?oid ?now sampleCustomerState sampleDetails = Inr od"
    by (simp add: newOrder_def cart sampleCart_def)
  have run: "handlePaymentSuccess sampleUser ?oid ?now None sampleCustomerState =
        Inr (sampleCustomerState\<lparr>cart := [], showPayment := False, activeView := ORDERS,
               savedOrders := [(''user-1'', od)]\<rparr>)"
    using od
    by (simp add: handlePaymentSuccess_def saveOrder_def sampleCustomerState_def
        sampleUser_def truthyString_def)
  have demo: "userId sampleStoreState = Some ''demo-user''"
    by (simp add: sampleStoreState_def)
  note inst = order_total_is_sum_and_is_kept
    [of sampleUser ?oid ?now sampleCustomerState sampleDetails od None
        "sampleCustomerState\<lparr>cart := [], showPayment := False, activeView := ORDERS,
           savedOrders := [(''user-1'', od)]\<rparr>"
        _ _ _ sampleStoreState "''demo-ord-1''" "''Accepted''" None Throws "\<lambda>ids. Throws"]
  from inst od have 1: "items od = sampleCart \<and> total od = 120"
    by (simp add: cart sum)
  from inst demo have 2: "map total (store_orders (handleOrderStatus sampleStoreState ''demo-ord-1''
      ''Accepted'' None Throws (\<lambda>ids. Throws))) = map total (store_orders sampleStoreState)"
    by simp
  have 3: "map total (store_orders sampleStoreState) = [120]"
    by (simp add: sampleStoreState_def demoOrders_def)
  show ?thesis
    using 1 2 3 by (simp add: od run)
qed

text \<open>
  Claim C7. With an empty cart no order is created: building the order fails with the
  \<open>TypeError\<close> of reading \<open>cart[0].storeName\<close>, so that \<open>handlePaymentSuccess\<close>, once
  checkout details are pending, fails with that error before anything is saved or set;
  and whenever \<open>handlePaymentSuccess\<close> does return (no checkout details pending), it
  returns the state it was given, with no order added.
\<close>

theorem empty_cart_creates_no_order:
  assumes "cart st = []"
  shows "newOrder user oid now st details = Inl TypeError \<and>
         (pendingOrderDetails st \<noteq> None \<longrightarrow>
            handlePaymentSuccess user oid now saveError st = Inl TypeError) \<and>
         (\<forall>st'. handlePaymentSuccess user oid now saveError st = Inr st' \<longrightarrow> st' = st)"
  using assms
  by (auto simp add: handlePaymentSuccess_def newOrder_empty split: option.splits)

text \<open>The theorem at a customer with pending checkout details and an empty cart.\<close>

theorem empty_cart_creates_no_order_witness:
  "newOrder sampleUser ''ord-1700000000002'' ''2024-01-01T00:00:00.000Z'' emptyCartState
     sampleDetails = Inl TypeError \<and>
   handlePaymentSuccess sampleUser ''ord-1700000000002'' ''2024-01-01T00:00:00.000Z'' None
     emptyCartState = Inl TypeError"
proof -
  have "cart emptyCartState = []"
    by (simp add: emptyCartState_def)
  from empty_cart_creates_no_order [OF this] show ?thesis
    by (simp add: emptyCartState_def sampleCustomerState_def)
qed

end
